theory Spec2Isabelle
  imports Main "HOL-Library.Sublist"
begin

section \<open>Strings\<close>

text \<open>
  Strings are \<^typ>\<open>string\<close>, read as UTF-8 text: an ASCII character is one \<^typ>\<open>char\<close>,
  and a character outside ASCII is a sequence of \<^typ>\<open>char\<close>s that all have the top bit
  set. \<open>String.split\<close> on an ASCII separator, \<open>Array.join\<close>, \<open>includes\<close>
  (\<^const>\<open>sublist\<close>), \<open>startsWith\<close> (\<^const>\<open>prefix\<close>) and \<open>endsWith\<close>
  (\<^const>\<open>suffix\<close>) with ASCII arguments act on this text as the library functions
  the source calls act on the JavaScript string.
\<close>

definition nl :: string where
  "nl = [CHR 0x0A]"

definition dq :: string where
  "dq = [CHR 0x22]"

definition bt :: string where
  "bt = [CHR 0x60]"

definition lower_letters :: string where
  "lower_letters = ''abcdefghijklmnopqrstuvwxyz''"

definition upper_letters :: string where
  "upper_letters = ''ABCDEFGHIJKLMNOPQRSTUVWXYZ''"

definition digits :: string where
  "digits = ''0123456789''"

text \<open>
  Case mapping. On an ASCII character \<open>toUpperCase\<close> and \<open>toLowerCase\<close> map the 26
  letters and leave every other character alone. What they do to text with characters
  outside ASCII is decided by the Unicode tables of the JavaScript engine, which are not
  part of the repository: the engine is a parameter, and it is asked whenever a character
  outside ASCII is involved. Its fields are \<open>s.toUpperCase()\<close>, \<open>s.toLowerCase()\<close>,
  \<open>s.charAt(0).toUpperCase() + s.slice(1)\<close> and \<open>s.charAt(0).toLowerCase() + s.slice(1)\<close>.
\<close>

definition is_ascii :: "char \<Rightarrow> bool" where
  "is_ascii c \<longleftrightarrow> \<not> digit7 c"

definition ascii_toUpperCase :: "char \<Rightarrow> char" where
  "ascii_toUpperCase c =
     (case map_of (zip lower_letters upper_letters) c of Some l \<Rightarrow> l | None \<Rightarrow> c)"

definition ascii_toLowerCase :: "char \<Rightarrow> char" where
  "ascii_toLowerCase c =
     (case map_of (zip upper_letters lower_letters) c of Some l \<Rightarrow> l | None \<Rightarrow> c)"

record Unicode =
  uc_toUpperCase :: "string \<Rightarrow> string"
  uc_toLowerCase :: "string \<Rightarrow> string"
  uc_upperFirst :: "string \<Rightarrow> string"
  uc_lowerFirst :: "string \<Rightarrow> string"

definition toUpperCase :: "Unicode \<Rightarrow> string \<Rightarrow> string" where
  "toUpperCase uc s = (if list_all is_ascii s then map ascii_toUpperCase s else uc_toUpperCase uc s)"

definition toLowerCase :: "Unicode \<Rightarrow> string \<Rightarrow> string" where
  "toLowerCase uc s = (if list_all is_ascii s then map ascii_toLowerCase s else uc_toLowerCase uc s)"

text \<open>The regular-expression class \<open>\w\<close>: a letter, a digit or the underscore.\<close>

definition is_word_char :: "char \<Rightarrow> bool" where
  "is_word_char c \<longleftrightarrow> c \<in> set lower_letters \<or> c \<in> set upper_letters \<or> c \<in> set digits \<or> c = CHR ''_''"

text \<open>\<open>s.split(c)\<close>: the empty string splits into one empty piece.\<close>

fun str_split :: "char \<Rightarrow> string \<Rightarrow> string list" where
  "str_split c [] = [[]]"
| "str_split c (x # xs) =
     (if x = c then [] # str_split c xs
      else (case str_split c xs of p # ps \<Rightarrow> (x # p) # ps | [] \<Rightarrow> [[x]]))"

text \<open>\<open>xs.join(sep)\<close>.\<close>

fun str_join :: "string \<Rightarrow> string list \<Rightarrow> string" where
  "str_join sep [] = []"
| "str_join sep [x] = x"
| "str_join sep (x # y # ys) = x @ sep @ str_join sep (y # ys)"

text \<open>
  Truthiness of an optional string (\<open>undefined\<close> and \<open>""\<close> are falsy), \<open>a || d\<close> with a
  string default, and \<open>a || b\<close> on two optional strings.
\<close>

definition truthy :: "string option \<Rightarrow> bool" where
  "truthy s = (case s of None \<Rightarrow> False | Some t \<Rightarrow> t \<noteq> [])"

definition or_else :: "string option \<Rightarrow> string \<Rightarrow> string" where
  "or_else s d = (case s of None \<Rightarrow> d | Some t \<Rightarrow> if t = [] then d else t)"

definition js_or :: "string option \<Rightarrow> string option \<Rightarrow> string option" where
  "js_or a b = (if truthy a then a else b)"

definition or_false :: "bool option \<Rightarrow> bool" where
  "or_false b = (case b of None \<Rightarrow> False | Some v \<Rightarrow> v)"

text \<open>\<open>p.charAt(0).toUpperCase() + p.slice(1)\<close>, which occurs twice in \<open>generateOperationId\<close>.\<close>

definition capitalize :: "Unicode \<Rightarrow> string \<Rightarrow> string" where
  "capitalize uc p =
     (case p of
        [] \<Rightarrow> []
      | c # cs \<Rightarrow> if is_ascii c then ascii_toUpperCase c # cs else uc_upperFirst uc p)"


section \<open>The source document\<close>

text \<open>
  The OpenAPI document as the types of \<open>openapi-types\<close> give it, restricted to the fields
  the parser reads. An optional field is an \<^typ>\<open>'a option\<close>. An object used as a
  dictionary is an association list in the order of \<open>Object.entries\<close>. A position that
  holds either a reference object or an inline object is a datatype with one constructor
  for each. A schema's \<open>type\<close> is a string. Documents are finite trees, and the keys
  of a dictionary are distinct, ordinary property names.
\<close>

datatype schema_node =
    ReferenceObject (ref: string)
  | SchemaObject
      (s_type: "string option")
      (s_description: "string option")
      (s_nullable: "bool option")
      (s_format: "string option")
      (s_enum: "string list option")
      (s_items: "schema_node option")
      (s_properties: "(string \<times> schema_node) list option")
      (s_required: "string list option")
      (s_allOf: "schema_node list option")
      (s_oneOf: "schema_node list option")
      (s_anyOf: "schema_node list option")

text \<open>A media type object, of which only the \<open>schema\<close> field is read.\<close>

type_synonym MediaTypeObject = "schema_node option"

record ParameterObject =
  po_name :: string
  po_in :: string
  po_required :: "bool option"
  po_description :: "string option"
  po_schema :: "schema_node option"

datatype parameter_node =
    ParameterReference string
  | Parameter ParameterObject

record RequestBodyObject =
  rbo_description :: "string option"
  rbo_content :: "(string \<times> MediaTypeObject) list"
  rbo_required :: "bool option"

datatype request_body_node =
    RequestBodyReference string
  | RequestBody RequestBodyObject

record ResponseObject =
  ro_description :: "string option"
  ro_content :: "(string \<times> MediaTypeObject) list option"

datatype response_node =
    ResponseReference string
  | Response ResponseObject

record OperationObject =
  oo_operationId :: "string option"
  oo_summary :: "string option"
  oo_description :: "string option"
  oo_tags :: "string list option"
  oo_parameters :: "parameter_node list option"
  oo_requestBody :: "request_body_node option"
  oo_responses :: "(string \<times> response_node) list option"
  oo_deprecated :: "bool option"

text \<open>
  A path item: its own parameters, and the operations it holds under the keys
  \<open>get\<close>, \<open>post\<close>, ... (looked up by \<open>pathItem[method]\<close>).
\<close>

record PathItemObject =
  pi_parameters :: "parameter_node list option"
  pi_methods :: "(string \<times> OperationObject) list"

record TagObject =
  to_name :: string
  to_description :: "string option"

record Document =
  doc_title :: string
  doc_version :: string
  doc_description :: "string option"
  doc_servers :: "string list option"
  doc_paths :: "(string \<times> PathItemObject option) list option"
  doc_schemas :: "(string \<times> schema_node) list option"
  doc_tags :: "TagObject list option"


section \<open>The intermediate representation\<close>

datatype ParsedSchema = ParsedSchema
  (ps_type: string)
  (ps_format: "string option")
  (ps_description: "string option")
  (ps_properties: "(string \<times> ParsedSchema) list option")
  (ps_items: "ParsedSchema option")
  (ps_required: "string list option")
  (ps_enum: "string list option")
  (ps_nullable: "bool option")
  (ps_ref: "string option")

record ParsedParameter =
  pp_name :: string
  pp_in :: string
  pp_required :: bool
  pp_description :: "string option"
  pp_type :: string
  pp_format :: "string option"

record ParsedRequestBody =
  rb_required :: bool
  rb_description :: "string option"
  rb_contentType :: string
  rb_schema :: ParsedSchema

record ParsedResponse =
  pr_statusCode :: string
  pr_description :: string
  pr_contentType :: "string option"
  pr_schema :: "ParsedSchema option"

record ParsedOperation =
  op_operationId :: string
  op_method :: string
  op_path :: string
  op_summary :: "string option"
  op_description :: "string option"
  op_tags :: "string list"
  op_parameters :: "ParsedParameter list"
  op_requestBody :: "ParsedRequestBody option"
  op_responses :: "ParsedResponse list"
  op_deprecated :: bool

record ParsedApi =
  api_title :: string
  api_version :: string
  api_description :: "string option"
  api_baseUrl :: "string option"
  api_operations :: "ParsedOperation list"
  api_schemas :: "(string \<times> ParsedSchema) list"
  api_tags :: "TagObject list"


section \<open>The parser\<close>

definition getRefName :: "string \<Rightarrow> string" where
  "getRefName r = last (str_split CHR ''/'' r)"

text \<open>Assignments to one field of the \<open>result\<close> object under construction.\<close>

fun set_type :: "string \<Rightarrow> ParsedSchema \<Rightarrow> ParsedSchema" where
  "set_type v (ParsedSchema t f d p i r e n rf) = ParsedSchema v f d p i r e n rf"

fun set_format :: "string \<Rightarrow> ParsedSchema \<Rightarrow> ParsedSchema" where
  "set_format v (ParsedSchema t f d p i r e n rf) = ParsedSchema t (Some v) d p i r e n rf"

fun set_properties :: "(string \<times> ParsedSchema) list \<Rightarrow> ParsedSchema \<Rightarrow> ParsedSchema" where
  "set_properties v (ParsedSchema t f d p i r e n rf) = ParsedSchema t f d (Some v) i r e n rf"

fun set_items :: "ParsedSchema \<Rightarrow> ParsedSchema \<Rightarrow> ParsedSchema" where
  "set_items v (ParsedSchema t f d p i r e n rf) = ParsedSchema t f d p (Some v) r e n rf"

fun set_required :: "string list \<Rightarrow> ParsedSchema \<Rightarrow> ParsedSchema" where
  "set_required v (ParsedSchema t f d p i r e n rf) = ParsedSchema t f d p i (Some v) e n rf"

fun set_enum :: "string list \<Rightarrow> ParsedSchema \<Rightarrow> ParsedSchema" where
  "set_enum v (ParsedSchema t f d p i r e n rf) = ParsedSchema t f d p i r (Some v) n rf"

text \<open>
  \<open>parseSchema\<close>. An absent schema gives \<open>{ type: "unknown" }\<close>; a reference gives its
  last path segment as type together with the pointer. Otherwise \<open>result\<close> is built
  field by field, every array and object being truthy whatever it holds, and at the end
  the first element of \<open>allOf\<close>, else of \<open>oneOf\<close>, else of \<open>anyOf\<close> replaces it.
\<close>

fun parseSchema :: "schema_node option \<Rightarrow> ParsedSchema" where
  "parseSchema None = ParsedSchema ''unknown'' None None None None None None None None"
| "parseSchema (Some (ReferenceObject r)) =
     ParsedSchema (getRefName r) None None None None None None None (Some r)"
| "parseSchema (Some (SchemaObject ty descr nullable fmt enum items props req allOf oneOf anyOf)) =
     (let result = ParsedSchema (or_else ty ''object'') None descr None None None None nullable None;
          result = (if truthy fmt then set_format (the fmt) result else result);
          result = (case enum of
                      Some e \<Rightarrow> set_type ''enum'' (set_enum e result)
                    | None \<Rightarrow> result);
          result = (case items of
                      Some i \<Rightarrow>
                        if ty = Some ''array'' then set_items (parseSchema (Some i)) result
                        else result
                    | None \<Rightarrow> result);
          result = (if ty = Some ''object'' \<or> props \<noteq> None
                    then (let result = set_properties
                                (case props of
                                   Some ps \<Rightarrow> map (\<lambda>(key, v). (key, parseSchema (Some v))) ps
                                 | None \<Rightarrow> []) result
                          in (case req of Some rq \<Rightarrow> set_required rq result | None \<Rightarrow> result))
                    else result)
      in (case allOf of
            Some (a # _) \<Rightarrow> parseSchema (Some a)
          | _ \<Rightarrow>
         (case oneOf of
            Some (b # _) \<Rightarrow> parseSchema (Some b)
          | _ \<Rightarrow>
         (case anyOf of
            Some (c # _) \<Rightarrow> parseSchema (Some c)
          | _ \<Rightarrow> result))))"

text \<open>
  The equation for an inline schema calls \<open>parseSchema\<close> again on its right-hand side;
  it is unfolded on request only.
\<close>

declare parseSchema.simps(3) [simp del]

text \<open>
  \<open>parseParameter\<close>. Only \<open>type\<close> and \<open>format\<close> of the parameter's schema are read; on a
  reference object both are \<open>undefined\<close>.
\<close>

definition schema_type_of :: "schema_node option \<Rightarrow> string option" where
  "schema_type_of s = (case s of Some (SchemaObject ty _ _ _ _ _ _ _ _ _ _) \<Rightarrow> ty | _ \<Rightarrow> None)"

definition schema_format_of :: "schema_node option \<Rightarrow> string option" where
  "schema_format_of s = (case s of Some (SchemaObject _ _ _ fmt _ _ _ _ _ _ _) \<Rightarrow> fmt | _ \<Rightarrow> None)"

definition parseParameter :: "ParameterObject \<Rightarrow> ParsedParameter" where
  "parseParameter param =
     \<lparr> pp_name = po_name param,
       pp_in = po_in param,
       pp_required = or_false (po_required param),
       pp_description = po_description param,
       pp_type = or_else (schema_type_of (po_schema param)) ''string'',
       pp_format = schema_format_of (po_schema param) \<rparr>"

text \<open>
  The content type chosen from a \<open>content\<close> object, written out in \<open>parseRequestBody\<close>
  and again in \<open>parseResponses\<close>:
  \<open>Object.keys(content).find((ct) => ct.includes("json")) || Object.keys(content)[0]\<close>.
\<close>

definition pickContentType :: "(string \<times> MediaTypeObject) list \<Rightarrow> string option" where
  "pickContentType content =
     (let keys = map fst content
      in js_or (find (\<lambda>ct. sublist ''json'' ct) keys)
               (case keys of [] \<Rightarrow> None | k # _ \<Rightarrow> Some k))"

definition parseRequestBody :: "request_body_node option \<Rightarrow> ParsedRequestBody option" where
  "parseRequestBody requestBody =
     (case requestBody of
        None \<Rightarrow> None
      | Some (RequestBodyReference _) \<Rightarrow> None
      | Some (RequestBody body) \<Rightarrow>
          (let content = rbo_content body;
               contentType = pickContentType content
           in if \<not> truthy contentType then None
              else (case map_of content (the contentType) of
                      None \<Rightarrow> None
                    | Some mediaType \<Rightarrow>
                        Some \<lparr> rb_required = or_false (rbo_required body),
                               rb_description = rbo_description body,
                               rb_contentType = the contentType,
                               rb_schema = parseSchema mediaType \<rparr>)))"

definition parseResponse :: "string \<Rightarrow> response_node \<Rightarrow> ParsedResponse" where
  "parseResponse statusCode response =
     (case response of
        ResponseReference r \<Rightarrow>
          \<lparr> pr_statusCode = statusCode, pr_description = ''Reference: '' @ r,
            pr_contentType = None, pr_schema = None \<rparr>
      | Response resp \<Rightarrow>
          (let parsed = \<lparr> pr_statusCode = statusCode,
                          pr_description = or_else (ro_description resp) [],
                          pr_contentType = None, pr_schema = None \<rparr>
           in (case ro_content resp of
                 None \<Rightarrow> parsed
               | Some content \<Rightarrow>
                   (let contentType = pickContentType content
                    in if \<not> truthy contentType then parsed
                       else (case map_of content (the contentType) of
                               None \<Rightarrow> parsed
                             | Some mediaType \<Rightarrow>
                                 parsed\<lparr> pr_contentType := contentType,
                                         pr_schema := Some (parseSchema mediaType) \<rparr>)))))"

definition parseResponses :: "(string \<times> response_node) list \<Rightarrow> ParsedResponse list" where
  "parseResponses responses = map (\<lambda>(statusCode, response). parseResponse statusCode response) responses"

text \<open>\<open>generateOperationId\<close>: the two \<open>map\<close> passes of the source, the first with the index.\<close>

definition generateOperationId :: "Unicode \<Rightarrow> string \<Rightarrow> string \<Rightarrow> string" where
  "generateOperationId uc method path =
     (let parts = map (\<lambda>(i, p). if i = 0 then toLowerCase uc p else capitalize uc p)
                    (enumerate (0::nat)
                       (filter (\<lambda>p. p \<noteq> [] \<and> \<not> prefix ''{'' p) (str_split CHR ''/'' path)))
      in toLowerCase uc method @ str_join [] (map (capitalize uc) parts))"

definition methods :: "string list" where
  "methods = [''get'', ''post'', ''put'', ''patch'', ''delete'', ''head'', ''options'']"

text \<open>The parameters that are not reference objects, as the two collecting loops keep them.\<close>

fun inline_parameters :: "parameter_node list option \<Rightarrow> ParameterObject list" where
  "inline_parameters None = []"
| "inline_parameters (Some []) = []"
| "inline_parameters (Some (ParameterReference _ # ps)) = inline_parameters (Some ps)"
| "inline_parameters (Some (Parameter p # ps)) = p # inline_parameters (Some ps)"

text \<open>The body of the inner loop of \<open>parseOpenApiSpec\<close>, for one operation that is present.\<close>

definition parseOperation ::
  "Unicode \<Rightarrow> string \<Rightarrow> PathItemObject \<Rightarrow> string \<Rightarrow> OperationObject \<Rightarrow> ParsedOperation" where
  "parseOperation uc path pathItem method operation =
     (let allParams = inline_parameters (pi_parameters pathItem)
                      @ inline_parameters (oo_parameters operation)
      in \<lparr> op_operationId = or_else (oo_operationId operation) (generateOperationId uc method path),
           op_method = toUpperCase uc method,
           op_path = path,
           op_summary = oo_summary operation,
           op_description = oo_description operation,
           op_tags = (case oo_tags operation of None \<Rightarrow> [] | Some ts \<Rightarrow> ts),
           op_parameters = map parseParameter allParams,
           op_requestBody = parseRequestBody (oo_requestBody operation),
           op_responses = parseResponses (case oo_responses operation of None \<Rightarrow> [] | Some rs \<Rightarrow> rs),
           op_deprecated = or_false (oo_deprecated operation) \<rparr>)"

definition parsePathItem :: "Unicode \<Rightarrow> string \<Rightarrow> PathItemObject option \<Rightarrow> ParsedOperation list" where
  "parsePathItem uc path pathItem =
     (case pathItem of
        None \<Rightarrow> []
      | Some item \<Rightarrow>
          concat (map (\<lambda>method.
                         case map_of (pi_methods item) method of
                           None \<Rightarrow> []
                         | Some operation \<Rightarrow> [parseOperation uc path item method operation])
                      methods))"

definition parseOpenApiSpec :: "Unicode \<Rightarrow> Document \<Rightarrow> ParsedApi" where
  "parseOpenApiSpec uc doc =
     (let baseUrl = (case doc_servers doc of Some (url # _) \<Rightarrow> Some url | _ \<Rightarrow> None);
          paths = (case doc_paths doc of None \<Rightarrow> [] | Some ps \<Rightarrow> ps);
          operations = concat (map (\<lambda>(path, pathItem). parsePathItem uc path pathItem) paths);
          schemas = (case doc_schemas doc of
                       None \<Rightarrow> []
                     | Some ss \<Rightarrow> map (\<lambda>(name, schema). (name, parseSchema (Some schema))) ss);
          tags = map (\<lambda>t. \<lparr> to_name = to_name t, to_description = to_description t \<rparr>)
                     (case doc_tags doc of None \<Rightarrow> [] | Some ts \<Rightarrow> ts)
      in \<lparr> api_title = doc_title doc,
           api_version = doc_version doc,
           api_description = doc_description doc,
           api_baseUrl = baseUrl,
           api_operations = operations,
           api_schemas = schemas,
           api_tags = tags \<rparr>)"


section \<open>Identifiers\<close>

text \<open>
  \<open>pascalCase\<close> is declared three times in the sources of the renderers, each time with
  the same body:
  \<open>str.replace(/[-_](\w)/g, (_, c) => c.toUpperCase()).replace(/^\w/, (c) => c.toUpperCase())\<close>.
  The first replacement scans from the left; a match consumes the separator and the
  character after it.
\<close>

fun replace_separators :: "string \<Rightarrow> string" where
  "replace_separators (a # b # rest) =
     (if (a = CHR ''-'' \<or> a = CHR ''_'') \<and> is_word_char b
      then ascii_toUpperCase b # replace_separators rest
      else a # replace_separators (b # rest))"
| "replace_separators xs = xs"

definition pascalCase :: "string \<Rightarrow> string" where
  "pascalCase str =
     (case replace_separators str of
        [] \<Rightarrow> []
      | c # cs \<Rightarrow> if is_word_char c then ascii_toUpperCase c # cs else c # cs)"

definition camelCase :: "Unicode \<Rightarrow> string \<Rightarrow> string" where
  "camelCase uc str =
     (case pascalCase str of
        [] \<Rightarrow> []
      | c # cs \<Rightarrow> if is_ascii c then ascii_toLowerCase c # cs else uc_lowerFirst uc (pascalCase str))"


section \<open>The client renderer\<close>

text \<open>A \<open>Set\<close> of strings keeps insertion order; so does a \<open>Map\<close> from tags to operations.\<close>

definition set_add :: "string list \<Rightarrow> string \<Rightarrow> string list" where
  "set_add s x = (if x \<in> set s then s else s @ [x])"

definition first_tag :: "ParsedOperation \<Rightarrow> string" where
  "first_tag op = (case op_tags op of [] \<Rightarrow> ''default'' | t # _ \<Rightarrow> if t = [] then ''default'' else t)"

definition groupByTag :: "ParsedOperation list \<Rightarrow> (string \<times> ParsedOperation list) list" where
  "groupByTag operations =
     foldl (\<lambda>groups op.
              let tag = first_tag op
              in (case map_of groups tag of
                    None \<Rightarrow> groups @ [(tag, [op])]
                  | Some existing \<Rightarrow>
                      map (\<lambda>(k, v). if k = tag then (k, existing @ [op]) else (k, v)) groups))
           [] operations"

definition getMethodName :: "Unicode \<Rightarrow> ParsedOperation \<Rightarrow> string" where
  "getMethodName uc op = camelCase uc (op_operationId op)"

definition getResponseType :: "ParsedOperation \<Rightarrow> string" where
  "getResponseType op = pascalCase (op_operationId op) @ ''Response''"

definition getParamsType :: "ParsedOperation \<Rightarrow> string option" where
  "getParamsType op =
     (let params = filter (\<lambda>p. pp_in p = ''query'' \<or> pp_in p = ''path'') (op_parameters op)
      in if params = [] then None else Some (pascalCase (op_operationId op) @ ''Params''))"

definition getRequestType :: "ParsedOperation \<Rightarrow> string option" where
  "getRequestType op =
     (case op_requestBody op of
        None \<Rightarrow> None
      | Some _ \<Rightarrow> Some (pascalCase (op_operationId op) @ ''Request''))"

text \<open>
  \<open>String.replace\<close> with a string pattern replaces the first occurrence only, and reads
  \<open>$$\<close>, \<open>$&\<close>, \<open>$`\<close> and \<open>$'\<close> in the replacement text as the dollar sign, the match,
  the text before it and the text after it.
\<close>

fun find_split :: "string \<Rightarrow> string \<Rightarrow> (string \<times> string) option" where
  "find_split pat [] = (if pat = [] then Some ([], []) else None)"
| "find_split pat (x # xs) =
     (if prefix pat (x # xs) then Some ([], drop (length pat) (x # xs))
      else map_option (\<lambda>(preceding, following). (x # preceding, following)) (find_split pat xs))"

fun expand_replacement :: "string \<Rightarrow> string \<Rightarrow> string \<Rightarrow> string \<Rightarrow> string" where
  "expand_replacement matched preceding following [] = []"
| "expand_replacement matched preceding following (x # rest) =
     (if x = CHR ''$'' then
        (case rest of
           [] \<Rightarrow> [x]
         | c # rest' \<Rightarrow>
             if c = CHR ''$'' then CHR ''$'' # expand_replacement matched preceding following rest'
             else if c = CHR ''&'' then matched @ expand_replacement matched preceding following rest'
             else if c = CHR 0x60 then preceding @ expand_replacement matched preceding following rest'
             else if c = CHR 0x27 then following @ expand_replacement matched preceding following rest'
             else x # expand_replacement matched preceding following rest)
      else x # expand_replacement matched preceding following rest)"

definition str_replace :: "string \<Rightarrow> string \<Rightarrow> string \<Rightarrow> string" where
  "str_replace s pat replacement =
     (case find_split pat s of
        None \<Rightarrow> s
      | Some (preceding, following) \<Rightarrow> preceding @ expand_replacement pat preceding following replacement @ following)"

definition generatePathInterpolation :: "string \<Rightarrow> ParsedParameter list \<Rightarrow> string" where
  "generatePathInterpolation path pathParams =
     foldl (\<lambda>result param.
              str_replace result (''{'' @ pp_name param @ ''}'') (''${params.'' @ pp_name param @ ''}''))
           path pathParams"

definition generateQueryBuilder :: "ParsedParameter list \<Rightarrow> string list" where
  "generateQueryBuilder queryParams =
     (if queryParams = [] then []
      else [''    const queryParams = new URLSearchParams();'']
           @ map (\<lambda>param.
                    let condition = (if pp_required param then []
                                     else ''if (params.'' @ pp_name param @ '' !== undefined) '')
                    in ''    '' @ condition @ ''queryParams.set('' @ dq @ pp_name param @ dq
                       @ '', String(params.'' @ pp_name param @ ''));'')
                 queryParams
           @ [''    const queryString = queryParams.toString() ? '' @ bt
                @ ''?${queryParams.toString()}'' @ bt @ '' : '' @ dq @ dq @ '';''])"

text \<open>The argument list of a generated method: the \<open>params\<close> array of \<open>generateMethod\<close>.\<close>

definition methodParams :: "ParsedOperation \<Rightarrow> string list" where
  "methodParams op =
     (case getParamsType op of
        None \<Rightarrow> []
      | Some paramsType \<Rightarrow>
          (let allOptional = list_all (\<lambda>p. \<not> pp_required p) (op_parameters op)
           in [''params'' @ (if allOptional then ''?'' else []) @ '': '' @ paramsType]))
     @ (case getRequestType op of
          None \<Rightarrow> []
        | Some requestType \<Rightarrow> [''body: '' @ requestType])"

text \<open>The statement that ends a generated method: \<open>generateMethod\<close>, "Return based on response type".\<close>

definition returnStatement :: "string \<Rightarrow> string" where
  "returnStatement responseType =
     (if suffix ''void'' responseType then ''      return;'' else ''      return response.json();'')"

definition generateMethodLines :: "Unicode \<Rightarrow> ParsedOperation \<Rightarrow> string \<Rightarrow> string list" where
  "generateMethodLines uc op baseUrlVar =
     (let methodName = getMethodName uc op;
          responseType = getResponseType op;
          requestType = getRequestType op;
          pathParams = filter (\<lambda>p. pp_in p = ''path'') (op_parameters op);
          queryParams = filter (\<lambda>p. pp_in p = ''query'') (op_parameters op);
          params = methodParams op;
          jsdoc = (if truthy (op_summary op) \<or> truthy (op_description op)
                   then [''    /**'']
                        @ (if truthy (op_summary op) then [''     * '' @ the (op_summary op)] else [])
                        @ (if truthy (op_description op) \<and> op_description op \<noteq> op_summary op
                           then [''     * '' @ the (op_description op)] else [])
                        @ (if op_deprecated op then [''     * @deprecated''] else [])
                        @ [''     */'']
                   else []);
          pathExpr = (if pathParams \<noteq> []
                      then bt @ generatePathInterpolation (op_path op) pathParams @ bt
                      else dq @ op_path op @ dq);
          queryLines = generateQueryBuilder queryParams;
          queryAppend = (if queryParams \<noteq> [] then '' + queryString'' else []);
          fetchOptions = [''method: '' @ dq @ op_method op @ dq]
                         @ (case requestType of
                              None \<Rightarrow> []
                            | Some _ \<Rightarrow>
                                [''headers: { '' @ dq @ ''Content-Type'' @ dq @ '': '' @ dq
                                   @ ''application/json'' @ dq @ '' }'',
                                 ''body: JSON.stringify(body)''])
      in jsdoc
         @ [''    '' @ methodName @ '': async ('' @ str_join '', '' params @ ''): Promise<''
              @ responseType @ ''> => {'']
         @ queryLines
         @ [''      const response = await fetch('' @ baseUrlVar @ '' + '' @ pathExpr @ queryAppend
              @ '', {'',
            ''        '' @ str_join ('','' @ nl @ ''        '') fetchOptions,
            ''      });'',
            [],
            ''      if (!response.ok) {'',
            ''        throw new Error('' @ bt @ ''HTTP ${response.status}: ${response.statusText}''
              @ bt @ '');'',
            ''      }'',
            [],
            returnStatement responseType,
            ''    },''])"

definition generateMethod :: "Unicode \<Rightarrow> ParsedOperation \<Rightarrow> string \<Rightarrow> string" where
  "generateMethod uc op baseUrlVar = str_join nl (generateMethodLines uc op baseUrlVar)"

text \<open>
  The names imported from the types artifact: the \<open>typeImports\<close> set of \<open>generateClient\<close>,
  filled by one pass over the operations.
\<close>

definition addTypeImports :: "string list \<Rightarrow> ParsedOperation \<Rightarrow> string list" where
  "addTypeImports imports op =
     (let imports = set_add imports (pascalCase (op_operationId op) @ ''Response'');
          imports = (case getParamsType op of
                       None \<Rightarrow> imports | Some paramsType \<Rightarrow> set_add imports paramsType)
      in (case getRequestType op of
            None \<Rightarrow> imports | Some requestType \<Rightarrow> set_add imports requestType))"

definition typeImports :: "ParsedApi \<Rightarrow> string list" where
  "typeImports api = foldl addTypeImports [] (api_operations api)"

definition generateGroup :: "Unicode \<Rightarrow> string \<Rightarrow> ParsedOperation list \<Rightarrow> string list" where
  "generateGroup uc tag ops =
     (let lines = [''  '' @ camelCase uc tag @ '' = {'']
                  @ concat (map (\<lambda>op. [generateMethod uc op ''this.baseUrl'', []]) ops);
          lines = (if last lines = [] then butlast lines else lines)
      in lines @ [''  };'', []])"

definition generateClientLines :: "Unicode \<Rightarrow> ParsedApi \<Rightarrow> string \<Rightarrow> string list" where
  "generateClientLines uc api clientName =
     [''// Auto-generated API client'',
      ''// Do not edit manually'',
      [],
      ''import type {'',
      ''  '' @ str_join ('','' @ nl @ ''  '') (typeImports api),
      ''} from '' @ dq @ ''./types.js'' @ dq @ '';'',
      [],
      ''export interface ClientConfig {'',
      ''  baseUrl: string;'',
      ''  headers?: Record<string, string>;'',
      ''}'',
      [],
      ''export class '' @ clientName @ '' {'',
      ''  private baseUrl: string;'',
      ''  private headers: Record<string, string>;'',
      [],
      ''  constructor(config: ClientConfig) {'',
      ''    this.baseUrl = config.baseUrl.replace(/'' @ [CHR 0x5C] @ ''/$/, '' @ dq @ dq @ '');'',
      ''    this.headers = config.headers || {};'',
      ''  }'',
      []]
     @ concat (map (\<lambda>(tag, ops). generateGroup uc tag ops) (groupByTag (api_operations api)))
     @ [''}'',
        [],
        ''/**'',
        '' * Create a new API client instance'',
        '' */'',
        ''export function create'' @ clientName @ ''(config: ClientConfig): '' @ clientName @ '' {'',
        ''  return new '' @ clientName @ ''(config);'',
        ''}'',
        []]"

definition generateClient :: "Unicode \<Rightarrow> ParsedApi \<Rightarrow> string \<Rightarrow> string" where
  "generateClient uc api clientName = str_join nl (generateClientLines uc api clientName)"


section \<open>The type renderer\<close>

definition nonempty :: "'a list option \<Rightarrow> 'a list option" where
  "nonempty xs = (case xs of Some (y # ys) \<Rightarrow> Some (y # ys) | _ \<Rightarrow> None)"

definition quoted_union :: "string list \<Rightarrow> string" where
  "quoted_union vs = str_join '' | '' (map (\<lambda>v. dq @ v @ dq) vs)"

definition optional_mark :: "string list option \<Rightarrow> string \<Rightarrow> string" where
  "optional_mark required key =
     (if (case required of None \<Rightarrow> False | Some r \<Rightarrow> key \<in> set r) then [] else ''?'')"

text \<open>The \<open>switch\<close> at the end of \<open>schemaToTsType\<close>.\<close>

definition primitiveTsType :: "string \<Rightarrow> string option \<Rightarrow> string" where
  "primitiveTsType ty fmt =
     (if ty = ''string'' then
        (if fmt = Some ''date'' \<or> fmt = Some ''date-time'' then ''string''
         else if fmt = Some ''binary'' then ''Blob''
         else ''string'')
      else if ty = ''integer'' \<or> ty = ''number'' then ''number''
      else if ty = ''boolean'' then ''boolean''
      else if ty = ''object'' then ''Record<string, unknown>''
      else if ty = ''null'' then ''null''
      else ''unknown'')"

function schemaToTsType :: "ParsedSchema \<Rightarrow> nat \<Rightarrow> string" where
  "schemaToTsType (ParsedSchema ty fmt descr props items req enum nullable rf) indent =
     (let spaces = concat (replicate indent ''  '')
      in if truthy rf then ty
         else if nonempty enum \<noteq> None then quoted_union (the enum)
         else if ty = ''array'' \<and> items \<noteq> None then schemaToTsType (the items) indent @ ''[]''
         else if nonempty props \<noteq> None then
           ''{'' @ nl
           @ str_join nl
               (map (\<lambda>(key, prop).
                       let optional = optional_mark req key;
                           propType = schemaToTsType prop (indent + 1);
                           comment = (if truthy (ps_description prop)
                                      then spaces @ ''  /** '' @ the (ps_description prop)
                                           @ '' */'' @ nl
                                      else [])
                       in comment @ spaces @ ''  '' @ key @ optional @ '': '' @ propType @ '';'')
                    (the props))
           @ nl @ spaces @ ''}''
         else primitiveTsType ty fmt)"
  by pat_completeness auto
termination
proof (relation "measure (\<lambda>(s, i). size s)", goal_cases)
  case 1
  show ?case by simp
next
  case (2 ty fmt descr props items req enum nullable rf indent spaces)
  then show ?case by auto
next
  case (3 ty fmt descr props items req enum nullable rf indent spaces kv k q)
  have bound: "size q < Suc (size_list (size_prod (\<lambda>x. 0) size) ps)"
    if "(k, q) \<in> set ps" for k q and ps :: "(string \<times> ParsedSchema) list"
    using that by (induction ps) auto
  from 3 obtain ps where "props = Some ps" "(k, q) \<in> set ps"
    by (cases props) (auto simp: nonempty_def)
  with bound [of k q ps] show ?case by simp
qed

definition generateInterface :: "string \<Rightarrow> ParsedSchema \<Rightarrow> string" where
  "generateInterface name schema =
     (let lines = (if truthy (ps_description schema)
                   then [''/** '' @ the (ps_description schema) @ '' */''] else [])
      in (case nonempty (ps_enum schema) of
            Some e \<Rightarrow>
              str_join nl (lines @ [''export type '' @ name @ '' = '' @ quoted_union e @ '';''])
          | None \<Rightarrow>
              (case nonempty (ps_properties schema) of
                 Some props \<Rightarrow>
                   str_join nl
                     (lines
                      @ [''export interface '' @ name @ '' {'']
                      @ concat (map (\<lambda>(key, prop).
                                       (if truthy (ps_description prop)
                                        then [''  /** '' @ the (ps_description prop) @ '' */'']
                                        else [])
                                       @ [''  '' @ key @ optional_mark (ps_required schema) key
                                            @ '': '' @ schemaToTsType prop 1 @ '';''])
                                    props)
                      @ [''}''])
               | None \<Rightarrow>
                   str_join nl
                     (lines @ [''export type '' @ name @ '' = '' @ schemaToTsType schema 0 @ '';'']))))"

definition paramTsType :: "string \<Rightarrow> string" where
  "paramTsType ty =
     (if ty = ''integer'' \<or> ty = ''number'' then ''number''
      else if ty = ''boolean'' then ''boolean''
      else if ty = ''array'' then ''string[]''
      else ''string'')"

definition generateParamsInterface :: "ParsedOperation \<Rightarrow> string option" where
  "generateParamsInterface operation =
     (let params = filter (\<lambda>p. pp_in p = ''query'' \<or> pp_in p = ''path'') (op_parameters operation)
      in if params = [] then None
         else (let interfaceName = pascalCase (op_operationId operation) @ ''Params''
               in Some (str_join nl
                   ([''export interface '' @ interfaceName @ '' {'']
                    @ concat (map (\<lambda>param.
                                     (if truthy (pp_description param)
                                      then [''  /** '' @ the (pp_description param) @ '' */'']
                                      else [])
                                     @ [''  '' @ pp_name param
                                          @ (if \<not> pp_required param then ''?'' else [])
                                          @ '': '' @ paramTsType (pp_type param) @ '';''])
                                  params)
                    @ [''}'']))))"

definition generateRequestBodyInterface :: "ParsedOperation \<Rightarrow> string option" where
  "generateRequestBodyInterface operation =
     (case op_requestBody operation of
        None \<Rightarrow> None
      | Some body \<Rightarrow>
          (let interfaceName = pascalCase (op_operationId operation) @ ''Request'';
               schema = rb_schema body
           in if truthy (ps_ref schema)
              then Some (''export type '' @ interfaceName @ '' = '' @ ps_type schema @ '';'')
              else Some (generateInterface interfaceName schema)))"

text \<open>
  \<open>generateResponseType\<close>: the first response whose status code starts with \<open>2\<close> and which
  has a schema decides; without one the type is \<open>void\<close>.
\<close>

definition generateResponseType :: "ParsedOperation \<Rightarrow> string" where
  "generateResponseType operation =
     (let successResponse = find (\<lambda>r. prefix ''2'' (pr_statusCode r) \<and> pr_schema r \<noteq> None)
                                 (op_responses operation)
      in (case (case successResponse of None \<Rightarrow> None | Some r \<Rightarrow> pr_schema r) of
            None \<Rightarrow> ''export type '' @ pascalCase (op_operationId operation) @ ''Response = void;''
          | Some schema \<Rightarrow>
              (let typeName = pascalCase (op_operationId operation) @ ''Response''
               in if truthy (ps_ref schema)
                  then ''export type '' @ typeName @ '' = '' @ ps_type schema @ '';''
                  else if ps_type schema = ''array''
                          \<and> (case ps_items schema of None \<Rightarrow> False | Some i \<Rightarrow> truthy (ps_ref i))
                  then ''export type '' @ typeName @ '' = '' @ ps_type (the (ps_items schema)) @ ''[];''
                  else ''export type '' @ typeName @ '' = '' @ schemaToTsType schema 0 @ '';'')))"

text \<open>The lines one operation contributes to the types artifact.\<close>

definition operationTypeLines :: "ParsedOperation \<Rightarrow> string list" where
  "operationTypeLines operation =
     (case generateParamsInterface operation of
        None \<Rightarrow> [] | Some paramsInterface \<Rightarrow> [paramsInterface, []])
     @ (case generateRequestBodyInterface operation of
          None \<Rightarrow> [] | Some requestInterface \<Rightarrow> [requestInterface, []])
     @ [generateResponseType operation, []]"

definition generateTypesLines :: "ParsedApi \<Rightarrow> string list" where
  "generateTypesLines api =
     [''// Auto-generated TypeScript types'',
      ''// Do not edit manually'',
      [],
      ''// ============ Schemas ============'',
      []]
     @ concat (map (\<lambda>(name, schema). [generateInterface name schema, []]) (api_schemas api))
     @ [''// ============ Operation Types ============'',
        []]
     @ concat (map operationTypeLines (api_operations api))"

definition generateTypes :: "ParsedApi \<Rightarrow> string" where
  "generateTypes api = str_join nl (generateTypesLines api)"


section \<open>The spec locator\<close>

text \<open>
  The fetcher talks to the network and to three libraries. They are the fields of a
  \<open>World\<close>: \<open>fetch\<close> (a thrown error is \<open>Inl\<close> of its message), \<open>JSON.parse\<close> and the
  YAML parser (\<open>None\<close> when they throw), \<open>SwaggerParser.validate\<close> (\<open>Inl\<close> when it rejects)
  and the \<open>URL\<close> constructor (\<open>None\<close> when it throws, else \<open>protocol\<close> and \<open>host\<close>). The
  world answers the same question the same way during one run. What \<open>console.log\<close>
  prints is returned as a list of lines beside the result.
\<close>

datatype json =
    JNull
  | JBool bool
  | JNumber int
  | JString string
  | JArray "json list"
  | JObject "(string \<times> json) list"

record HttpResponse =
  res_ok :: bool
  res_status :: nat
  res_statusText :: string
  res_contentType :: "string option"
  res_text :: string

record World =
  w_fetch :: "string \<Rightarrow> string + HttpResponse"
  w_jsonParse :: "string \<Rightarrow> json option"
  w_parseYaml :: "string \<Rightarrow> json option"
  w_validate :: "json \<Rightarrow> string + Document"
  w_parseURL :: "string \<Rightarrow> (string \<times> string) option"

datatype error = Error (message: string)

record FetchResult =
  fr_spec :: Document
  fr_sourceUrl :: string

definition SPEC_DISCOVERY_PATHS :: "string list" where
  "SPEC_DISCOVERY_PATHS =
     [''/openapi.json'',
      ''/openapi.yaml'',
      ''/swagger.json'',
      ''/swagger.yaml'',
      ''/api-docs'',
      ''/v3/api-docs'',
      ''/v2/api-docs'',
      ''/api/v3/openapi.json'',
      ''/api/v3/openapi.yaml'',
      ''/api/v2/swagger.json'',
      ''/docs/openapi.json'',
      ''/docs/swagger.json'',
      ''/api/openapi.json'',
      ''/api/swagger.json'',
      ''/.well-known/openapi.json'']"

definition string_field_startsWith :: "(string \<times> json) list \<Rightarrow> string \<Rightarrow> string \<Rightarrow> bool" where
  "string_field_startsWith obj field p =
     (case map_of obj field of Some (JString v) \<Rightarrow> prefix p v | _ \<Rightarrow> False)"

definition isOpenApiSpec :: "json \<Rightarrow> bool" where
  "isOpenApiSpec data =
     (case data of
        JObject obj \<Rightarrow>
          if string_field_startsWith obj ''openapi'' ''3.'' then True
          else if string_field_startsWith obj ''swagger'' ''2.'' then True
          else False
      | _ \<Rightarrow> False)"

text \<open>The decimal digits of a number, as a template literal prints them.\<close>

function show_nat :: "nat \<Rightarrow> string" where
  "show_nat n = (if n < 10 then [digits ! n] else show_nat (n div 10) @ [digits ! (n mod 10)])"
  by pat_completeness auto
termination
  by (relation "measure id") auto

definition is_space :: "char \<Rightarrow> bool" where
  "is_space c \<longleftrightarrow> c \<in> set [CHR 0x20, CHR 0x09, CHR 0x0A, CHR 0x0B, CHR 0x0C, CHR 0x0D]"

definition trimStart :: "string \<Rightarrow> string" where
  "trimStart s = dropWhile is_space s"

definition fetchAndParse :: "World \<Rightarrow> string \<Rightarrow> string + json" where
  "fetchAndParse w url =
     (case w_fetch w url of
        Inl thrown \<Rightarrow> Inl thrown
      | Inr response \<Rightarrow>
          if \<not> res_ok response
          then Inl (''HTTP '' @ show_nat (res_status response) @ '': '' @ res_statusText response)
          else
            (let contentType = or_else (res_contentType response) [];
                 text = res_text response;
                 yaml = (case w_parseYaml w text of
                           Some data \<Rightarrow> Inr data
                         | None \<Rightarrow> Inl ''Could not parse response as JSON or YAML'')
             in if sublist ''json'' contentType \<or> prefix ''{'' (trimStart text)
                then (case w_jsonParse w text of Some data \<Rightarrow> Inr data | None \<Rightarrow> yaml)
                else yaml))"

definition getBaseUrl :: "World \<Rightarrow> string \<Rightarrow> string" where
  "getBaseUrl w url =
     (case w_parseURL w url of
        Some (protocol, host) \<Rightarrow> protocol @ ''//'' @ host
      | None \<Rightarrow> url)"

definition check_mark :: string where
  "check_mark = [CHR 0xE2, CHR 0x9C, CHR 0x93]"

definition cross_mark :: string where
  "cross_mark = [CHR 0xE2, CHR 0x9C, CHR 0x97]"

text \<open>
  The loop of \<open>discoverSpec\<close> over the paths still to try. An error thrown by the fetch
  or by the validator is swallowed and the loop goes on; data that is no specification
  falls through to the next path as well.
\<close>

fun discoverLoop :: "World \<Rightarrow> string \<Rightarrow> string list \<Rightarrow> string list \<times> FetchResult option" where
  "discoverLoop w baseUrl [] = ([], None)"
| "discoverLoop w baseUrl (path # paths) =
     (let fullUrl = baseUrl @ path;
          trying = ''  Trying: '' @ fullUrl;
          continue = discoverLoop w baseUrl paths
      in (case fetchAndParse w fullUrl of
            Inl _ \<Rightarrow> (trying # fst continue, snd continue)
          | Inr data \<Rightarrow>
              if isOpenApiSpec data
              then (case w_validate w data of
                      Inl _ \<Rightarrow>
                        (trying # (''  '' @ check_mark @ '' Found valid OpenAPI spec!'') # fst continue,
                         snd continue)
                    | Inr validated \<Rightarrow>
                        ([trying, ''  '' @ check_mark @ '' Found valid OpenAPI spec!''],
                         Some \<lparr> fr_spec = validated, fr_sourceUrl = fullUrl \<rparr>))
              else (trying # fst continue, snd continue)))"

definition discoverSpec :: "World \<Rightarrow> string \<Rightarrow> string list \<times> FetchResult option" where
  "discoverSpec w baseUrl =
     (let found = discoverLoop w baseUrl SPEC_DISCOVERY_PATHS
      in ((nl @ ''Attempting to discover OpenAPI spec at common locations...'') # fst found,
          snd found))"

definition notFoundMessage :: "string \<Rightarrow> string \<Rightarrow> string" where
  "notFoundMessage url baseUrl =
     ''Could not find an OpenAPI specification.'' @ nl @ nl
     @ ''Tried:'' @ nl
     @ ''  1. Direct URL: '' @ url @ nl
     @ ''  2. Discovery at common paths under: '' @ baseUrl @ nl @ nl
     @ ''Please ensure the URL points to a valid OpenAPI 3.x or Swagger 2.x specification,'' @ nl
     @ ''or that the API exposes a spec at a standard location.''"

text \<open>What follows the direct attempt in \<open>fetchOpenApiSpec\<close> once it has failed.\<close>

definition discoverOrFail :: "World \<Rightarrow> string \<Rightarrow> string list \<times> (error + FetchResult)" where
  "discoverOrFail w url =
     (let baseUrl = getBaseUrl w url;
          discovered = discoverSpec w baseUrl
      in (case snd discovered of
            Some result \<Rightarrow> (fst discovered, Inr result)
          | None \<Rightarrow> (fst discovered, Inl (Error (notFoundMessage url baseUrl)))))"

definition fetchOpenApiSpec :: "World \<Rightarrow> string \<Rightarrow> string list \<times> (error + FetchResult)" where
  "fetchOpenApiSpec w url =
     (let fetching = ''Fetching: '' @ url;
          continue = discoverOrFail w url
      in (case fetchAndParse w url of
            Inl thrown \<Rightarrow>
              (fetching # (cross_mark @ '' Could not fetch from URL: '' @ thrown) # fst continue,
               snd continue)
          | Inr data \<Rightarrow>
              if isOpenApiSpec data
              then (case w_validate w data of
                      Inl thrown \<Rightarrow>
                        (fetching # (check_mark @ '' Valid OpenAPI spec found at provided URL'')
                           # (cross_mark @ '' Could not fetch from URL: '' @ thrown) # fst continue,
                         snd continue)
                    | Inr validated \<Rightarrow>
                        ([fetching, check_mark @ '' Valid OpenAPI spec found at provided URL''],
                         Inr \<lparr> fr_spec = validated, fr_sourceUrl = url \<rparr>))
              else (fetching # (cross_mark @ '' URL does not contain a valid OpenAPI/Swagger spec'')
                      # fst continue,
                    snd continue)))"


section \<open>Notions used in the properties\<close>

text \<open>
  An operation node that the parser reads: an operation object stored in a path item of
  the document under one of the keys \<open>get\<close>, \<open>post\<close>, \<open>put\<close>, \<open>patch\<close>, \<open>delete\<close>,
  \<open>head\<close>, \<open>options\<close>. An operation under any other key of a path item, such as
  \<open>trace\<close>, is not one.
\<close>

definition operation_node ::
  "Document \<Rightarrow> string \<Rightarrow> PathItemObject \<Rightarrow> string \<Rightarrow> OperationObject \<Rightarrow> bool" where
  "operation_node doc path item method operation \<longleftrightarrow>
     (path, Some item) \<in> set (case doc_paths doc of None \<Rightarrow> [] | Some ps \<Rightarrow> ps)
     \<and> method \<in> set [''get'', ''post'', ''put'', ''patch'', ''delete'', ''head'', ''options'']
     \<and> map_of (pi_methods item) method = Some operation"


text \<open>
  A reference populates nothing else: when \<open>ref\<close> is set, no other optional field of the
  schema is, and the same holds for the schemas below it.
\<close>

fun ref_exclusive :: "ParsedSchema \<Rightarrow> bool" where
  "ref_exclusive (ParsedSchema t f d p i r e n rf) \<longleftrightarrow>
     (rf \<noteq> None \<longrightarrow> f = None \<and> d = None \<and> p = None \<and> i = None \<and> r = None \<and> e = None \<and> n = None)
     \<and> (case i of None \<Rightarrow> True | Some q \<Rightarrow> ref_exclusive q)
     \<and> (case p of None \<Rightarrow> True | Some ps \<Rightarrow> list_all (\<lambda>(k, q). ref_exclusive q) ps)"

text \<open>The schemas of an operation (request body and responses) and of the whole IR.\<close>

definition schemas_of_operation :: "ParsedOperation \<Rightarrow> ParsedSchema list" where
  "schemas_of_operation op =
     (case op_requestBody op of None \<Rightarrow> [] | Some body \<Rightarrow> [rb_schema body])
     @ concat (map (\<lambda>r. case pr_schema r of None \<Rightarrow> [] | Some s \<Rightarrow> [s]) (op_responses op))"

definition schemas_of_api :: "ParsedApi \<Rightarrow> ParsedSchema list" where
  "schemas_of_api api =
     map snd (api_schemas api) @ concat (map schemas_of_operation (api_operations api))"

text \<open>
  The non-empty path segments that do not start with \<open>{\<close>: the segments that
  \<open>generateOperationId\<close> keeps.
\<close>

definition nonParameterSegments :: "string \<Rightarrow> string list" where
  "nonParameterSegments path =
     filter (\<lambda>p. p \<noteq> [] \<and> \<not> prefix ''{'' p) (str_split CHR ''/'' path)"

text \<open>
  Modelled from the spec: the identifier deriver of section 4.3 and the synthesis rule of
  section 4.2, in the specification's words. \<open>pascalCase\<close> splits its argument at every
  character that is not a letter or a digit, starts every piece with an upper-case letter
  and joins the pieces (\<open>find-pets-by-status\<close> becomes \<open>FindPetsByStatus\<close>). A parameter
  placeholder is a segment of the form \<open>{name}\<close>. The synthesized identifier is the
  lower-cased method followed by the PascalCase of every segment that is not a placeholder.
\<close>

definition is_alnum :: "char \<Rightarrow> bool" where
  "is_alnum c \<longleftrightarrow> c \<in> set lower_letters \<or> c \<in> set upper_letters \<or> c \<in> set digits"

fun spec_pieces :: "string \<Rightarrow> string list" where
  "spec_pieces [] = [[]]"
| "spec_pieces (c # cs) =
     (if is_alnum c
      then (case spec_pieces cs of w # ws \<Rightarrow> (c # w) # ws | [] \<Rightarrow> [[c]])
      else [] # spec_pieces cs)"

definition spec_pascalCase :: "Unicode \<Rightarrow> string \<Rightarrow> string" where
  "spec_pascalCase uc s = concat (map (capitalize uc) (spec_pieces s))"

definition spec_segments :: "string \<Rightarrow> string list" where
  "spec_segments path =
     filter (\<lambda>p. \<not> (prefix ''{'' p \<and> suffix ''}'' p)) (str_split CHR ''/'' path)"

definition spec_operationId :: "Unicode \<Rightarrow> string \<Rightarrow> string \<Rightarrow> string" where
  "spec_operationId uc method path =
     toLowerCase uc method @ concat (map (spec_pascalCase uc) (spec_segments path))"

text \<open>A text without upper-case letters.\<close>

definition no_upper :: "string \<Rightarrow> bool" where
  "no_upper s = list_all (\<lambda>c. c \<notin> set upper_letters) s"

text \<open>
  What it means for the types artifact to declare a name: at the start of the text or
  right after a line break stands \<open>export type N = \<close> or \<open>export interface N {\<close>.
\<close>

fun line_starts :: "string \<Rightarrow> string list" where
  "line_starts [] = []"
| "line_starts (c # cs) = (if c = CHR 0x0A then cs # line_starts cs else line_starts cs)"

definition at_line_start :: "string \<Rightarrow> string \<Rightarrow> bool" where
  "at_line_start pat text = list_ex (prefix pat) (text # line_starts text)"

definition declares :: "string \<Rightarrow> string \<Rightarrow> bool" where
  "declares text name \<longleftrightarrow>
     at_line_start (''export type '' @ name @ '' = '') text
     \<or> at_line_start (''export interface '' @ name @ '' {'') text"

text \<open>The type names that the signature of an operation's client method mentions.\<close>

definition referencedTypes :: "ParsedOperation \<Rightarrow> string list" where
  "referencedTypes op =
     [getResponseType op]
     @ (case getParamsType op of None \<Rightarrow> [] | Some paramsType \<Rightarrow> [paramsType])
     @ (case getRequestType op of None \<Rightarrow> [] | Some requestType \<Rightarrow> [requestType])"

text \<open>
  One attempt of the locator at one URL fails: the fetch throws, or the data is no
  specification, or the validator rejects it.
\<close>

definition attempt_fails :: "World \<Rightarrow> string \<Rightarrow> bool" where
  "attempt_fails w u =
     (case fetchAndParse w u of
        Inl _ \<Rightarrow> True
      | Inr data \<Rightarrow>
          if isOpenApiSpec data
          then (case w_validate w data of Inl _ \<Rightarrow> True | Inr _ \<Rightarrow> False)
          else True)"


section \<open>Example inputs\<close>

text \<open>
  An engine for the examples. Every example below is ASCII text, on which no result
  depends on the engine.
\<close>

definition engine :: Unicode where
  "engine =
     \<lparr> uc_toUpperCase = (\<lambda>s. s), uc_toLowerCase = (\<lambda>s. s),
       uc_upperFirst = (\<lambda>s. s), uc_lowerFirst = (\<lambda>s. s) \<rparr>"

text \<open>
  A document whose only operation has a path parameter declared \<open>required: false\<close>.
\<close>

definition int64_schema :: schema_node where
  "int64_schema = SchemaObject (Some ''integer'') None None (Some ''int64'') None None None None None None None"

definition petId_optional :: ParameterObject where
  "petId_optional =
     \<lparr> po_name = ''petId'', po_in = ''path'', po_required = Some False,
       po_description = None, po_schema = Some int64_schema \<rparr>"

definition getPetById :: OperationObject where
  "getPetById =
     \<lparr> oo_operationId = Some ''getPetById'', oo_summary = None, oo_description = None,
       oo_tags = Some [''pet''], oo_parameters = Some [Parameter petId_optional],
       oo_requestBody = None, oo_responses = None, oo_deprecated = None \<rparr>"

definition pet_item :: PathItemObject where
  "pet_item = \<lparr> pi_parameters = None, pi_methods = [(''get'', getPetById)] \<rparr>"

definition pet_document :: Document where
  "pet_document =
     \<lparr> doc_title = ''Petstore'', doc_version = ''1.0'', doc_description = None,
       doc_servers = None, doc_paths = Some [(''/pet/{petId}'', Some pet_item)],
       doc_schemas = None, doc_tags = None \<rparr>"

text \<open>
  A document that declares the parameter \<open>id\<close> on the path item and again on the operation.
\<close>

definition id_path_level :: ParameterObject where
  "id_path_level =
     \<lparr> po_name = ''id'', po_in = ''path'', po_required = Some True,
       po_description = Some ''path level'', po_schema = None \<rparr>"

definition id_operation_level :: ParameterObject where
  "id_operation_level =
     \<lparr> po_name = ''id'', po_in = ''path'', po_required = Some True,
       po_description = Some ''operation level'', po_schema = None \<rparr>"

definition getItem :: OperationObject where
  "getItem =
     \<lparr> oo_operationId = Some ''getItem'', oo_summary = None, oo_description = None,
       oo_tags = None, oo_parameters = Some [Parameter id_operation_level],
       oo_requestBody = None, oo_responses = None, oo_deprecated = None \<rparr>"

definition item_item :: PathItemObject where
  "item_item = \<lparr> pi_parameters = Some [Parameter id_path_level], pi_methods = [(''get'', getItem)] \<rparr>"

definition item_document :: Document where
  "item_document =
     \<lparr> doc_title = ''Items'', doc_version = ''1.0'', doc_description = None,
       doc_servers = None, doc_paths = Some [(''/items/{id}'', Some item_item)],
       doc_schemas = None, doc_tags = None \<rparr>"

text \<open>
  A document with a named schema that has both \<open>enum\<close> and \<open>properties\<close>, and a named
  schema that is a reference.
\<close>

definition status_schema :: schema_node where
  "status_schema =
     SchemaObject (Some ''object'') None None None (Some [''on'', ''off'']) None
       (Some [(''code'', SchemaObject (Some ''integer'') None None None None None None None None None None)])
       None None None None"

definition status_document :: Document where
  "status_document =
     \<lparr> doc_title = ''Status'', doc_version = ''1.0'', doc_description = None,
       doc_servers = None, doc_paths = None,
       doc_schemas = Some [(''Status'', status_schema),
                           (''Alias'', ReferenceObject ''#/components/schemas/Status'')],
       doc_tags = None \<rparr>"

text \<open>A schema with an empty \<open>allOf\<close> and two branches under \<open>oneOf\<close>.\<close>

definition cat_or_dog :: schema_node where
  "cat_or_dog =
     SchemaObject (Some ''object'') (Some ''a pet'') None None None None None None (Some [])
       (Some [ReferenceObject ''#/components/schemas/Cat'', ReferenceObject ''#/components/schemas/Dog''])
       None"

text \<open>
  A document with two operations under one identifier: \<open>GET /pets\<close> has no
  \<open>operationId\<close>, and \<open>POST /animals\<close> declares the identifier that the first synthesizes.
\<close>

definition listPets :: OperationObject where
  "listPets =
     \<lparr> oo_operationId = None, oo_summary = None, oo_description = None,
       oo_tags = None, oo_parameters = None, oo_requestBody = None,
       oo_responses = None, oo_deprecated = None \<rparr>"



text \<open>
  The operation \<open>deletePet\<close> of the pet store, as parsed: none of its responses has a schema.
\<close>

definition deletePet :: ParsedOperation where
  "deletePet =
     \<lparr> op_operationId = ''deletePet'', op_method = ''DELETE'', op_path = ''/pet/{petId}'',
       op_summary = None, op_description = None, op_tags = [''pet''],
       op_parameters = [\<lparr> pp_name = ''petId'', pp_in = ''path'', pp_required = True,
                          pp_description = None, pp_type = ''integer'', pp_format = Some ''int64'' \<rparr>],
       op_requestBody = None,
       op_responses = [\<lparr> pr_statusCode = ''400'', pr_description = ''Invalid pet value'',
                         pr_contentType = None, pr_schema = None \<rparr>],
       op_deprecated = False \<rparr>"

text \<open>A document whose only operation has a reference as request body.\<close>

definition createUser :: OperationObject where
  "createUser =
     \<lparr> oo_operationId = Some ''createUser'', oo_summary = None, oo_description = None,
       oo_tags = None, oo_parameters = None,
       oo_requestBody = Some (RequestBodyReference ''#/components/requestBodies/UserBody''),
       oo_responses = None, oo_deprecated = None \<rparr>"

definition user_item :: PathItemObject where
  "user_item = \<lparr> pi_parameters = None, pi_methods = [(''post'', createUser)] \<rparr>"

definition user_document :: Document where
  "user_document =
     \<lparr> doc_title = ''Users'', doc_version = ''1.0'', doc_description = None,
       doc_servers = None, doc_paths = Some [(''/user'', Some user_item)],
       doc_schemas = None, doc_tags = None \<rparr>"

text \<open>An IR with \<open>deletePet\<close> and an operation that has a request body.\<close>

definition pet_reference :: ParsedSchema where
  "pet_reference =
     ParsedSchema ''Pet'' None None None None None None None (Some ''#/components/schemas/Pet'')"

definition addPet :: ParsedOperation where
  "addPet =
     \<lparr> op_operationId = ''addPet'', op_method = ''POST'', op_path = ''/pet'',
       op_summary = None, op_description = None, op_tags = [''pet''],
       op_parameters = [],
       op_requestBody = Some \<lparr> rb_required = True, rb_description = None,
                               rb_contentType = ''application/json'', rb_schema = pet_reference \<rparr>,
       op_responses = [\<lparr> pr_statusCode = ''200'', pr_description = ''Successful operation'',
                         pr_contentType = Some ''application/json'',
                         pr_schema = Some pet_reference \<rparr>],
       op_deprecated = False \<rparr>"

definition pet_api :: ParsedApi where
  "pet_api =
     \<lparr> api_title = ''Petstore'', api_version = ''1.0'', api_description = None,
       api_baseUrl = None, api_operations = [deletePet, addPet], api_schemas = [],
       api_tags = [] \<rparr>"

text \<open>A world in which every fetch throws.\<close>

definition offline :: World where
  "offline =
     \<lparr> w_fetch = (\<lambda>u. Inl ''fetch failed''),
       w_jsonParse = (\<lambda>t. None),
       w_parseYaml = (\<lambda>t. None),
       w_validate = (\<lambda>d. Inl ''not valid''),
       w_parseURL = (\<lambda>u. if u = ''https://api.example.com/v1/docs''
                          then Some (''https:'', ''api.example.com'') else None) \<rparr>"


section \<open>Properties of the parser\<close>

lemmas case_defs = ascii_toUpperCase_def ascii_toLowerCase_def lower_letters_def upper_letters_def

lemmas parse_defs = parseOpenApiSpec_def parsePathItem_def methods_def parseOperation_def
  parseParameter_def or_false_def or_else_def schema_type_of_def schema_format_of_def
  parseRequestBody_def parseResponses_def toUpperCase_def is_ascii_def case_defs

text \<open>
  The operations of the IR are the parses of the operation nodes of the document.
\<close>

lemma operations_of_item:
  "op \<in> set (parsePathItem uc path pathItem) \<longleftrightarrow>
     (\<exists>item method operation.
        pathItem = Some item \<and> method \<in> set methods
        \<and> map_of (pi_methods item) method = Some operation
        \<and> op = parseOperation uc path item method operation)"
proof (cases pathItem)
  case None
  then show ?thesis by (simp add: parsePathItem_def)
next
  case (Some item)
  have "op \<in> set (parsePathItem uc path (Some item)) \<longleftrightarrow>
     (\<exists>method\<in>set methods. \<exists>operation.
        map_of (pi_methods item) method = Some operation
        \<and> op = parseOperation uc path item method operation)"
    by (simp add: parsePathItem_def split: option.split) (metis option.exhaust option.inject)
  with Some show ?thesis by auto
qed

lemma operations_of_document:
  "op \<in> set (api_operations (parseOpenApiSpec uc doc)) \<longleftrightarrow>
     (\<exists>path item method operation.
        operation_node doc path item method operation
        \<and> op = parseOperation uc path item method operation)"
proof -
  have keys: "set [''get'', ''post'', ''put'', ''patch'', ''delete'', ''head'', ''options''] = set methods"
    by (simp add: methods_def)
  show ?thesis
    unfolding operation_node_def keys
    by (auto simp: parseOpenApiSpec_def Let_def operations_of_item) blast+
qed


subsection \<open>C2: the required flag of a path parameter\<close>

text \<open>
  C2 claims that a parameter located in the path is always required in the parsed
  operation. \<open>parseParameter\<close> copies the flag: a path parameter declared
  \<open>required: false\<close>, or declared without the flag, comes out not required.
\<close>

theorem path_parameter_optional_counterexample:
  "po_in petId_optional = ''path''
   \<and> po_required petId_optional = Some False
   \<and> map op_parameters (api_operations (parseOpenApiSpec engine pet_document)) =
       [[\<lparr> pp_name = ''petId'', pp_in = ''path'', pp_required = False, pp_description = None,
           pp_type = ''integer'', pp_format = Some ''int64'' \<rparr>]]
   \<and> pp_required (parseParameter (petId_optional\<lparr> po_required := None \<rparr>)) = False"
  by (simp add: parse_defs pet_document_def pet_item_def getPetById_def petId_optional_def
        int64_schema_def)

text \<open>
  C2, as amended: every parameter of every parsed operation is \<open>parseParameter\<close> of an inline
  parameter declared on the operation's path item or on the operation itself; it keeps the
  location of that parameter, and it is required exactly when the source declares
  \<open>required: true\<close>, whatever the location.
\<close>

theorem parameter_required_follows_source:
  assumes "op \<in> set (api_operations (parseOpenApiSpec uc doc))"
    and "p \<in> set (op_parameters op)"
  shows "\<exists>path item method operation param.
           operation_node doc path item method operation
         \<and> op = parseOperation uc path item method operation
         \<and> param \<in> set (inline_parameters (pi_parameters item)
                           @ inline_parameters (oo_parameters operation))
         \<and> p = parseParameter param
         \<and> pp_in p = po_in param
         \<and> (pp_required p \<longleftrightarrow> po_required param = Some True)"
proof -
  from assms(1) obtain path item meth operation
    where src: "operation_node doc path item meth operation"
      and op: "op = parseOperation uc path item meth operation"
    by (auto simp: operations_of_document)
  from assms(2) op obtain param
    where param: "param \<in> set (inline_parameters (pi_parameters item)
                                @ inline_parameters (oo_parameters operation))"
      and p: "p = parseParameter param"
    by (auto simp: parseOperation_def Let_def)
  have "pp_in p = po_in param" and "pp_required p \<longleftrightarrow> po_required param = Some True"
    by (auto simp: p parseParameter_def or_false_def split: option.splits)
  with src op param p show ?thesis by blast
qed

text \<open>The theorem at the path parameter of the document above.\<close>

theorem parameter_required_follows_source_witness:
  "parseOperation engine ''/pet/{petId}'' pet_item ''get'' getPetById
     \<in> set (api_operations (parseOpenApiSpec engine pet_document))
   \<and> parseParameter petId_optional
     \<in> set (op_parameters (parseOperation engine ''/pet/{petId}'' pet_item ''get'' getPetById))
   \<and> (\<exists>path item method operation param.
           operation_node pet_document path item method operation
         \<and> parseOperation engine ''/pet/{petId}'' pet_item ''get'' getPetById
             = parseOperation engine path item method operation
         \<and> param \<in> set (inline_parameters (pi_parameters item)
                           @ inline_parameters (oo_parameters operation))
         \<and> parseParameter petId_optional = parseParameter param
         \<and> pp_in (parseParameter petId_optional) = po_in param
         \<and> (pp_required (parseParameter petId_optional) \<longleftrightarrow> po_required param = Some True))"
proof -
  have node: "operation_node pet_document ''/pet/{petId}'' pet_item ''get'' getPetById"
    by (simp add: operation_node_def pet_document_def pet_item_def)
  then have h1: "parseOperation engine ''/pet/{petId}'' pet_item ''get'' getPetById
              \<in> set (api_operations (parseOpenApiSpec engine pet_document))"
    by (auto simp: operations_of_document)
  have h2: "parseParameter petId_optional
              \<in> set (op_parameters (parseOperation engine ''/pet/{petId}'' pet_item ''get'' getPetById))"
    by (simp add: parseOperation_def pet_item_def getPetById_def)
  from parameter_required_follows_source [OF h1 h2] h1 h2 show ?thesis by simp
qed


subsection \<open>C3: path-level and operation-level parameters\<close>

text \<open>
  C3 claims at most one parameter for each name, the operation-level one winning. The
  parser appends the two lists; a name declared at both levels appears twice.
\<close>

theorem parameters_not_merged_counterexample:
  "map op_parameters (api_operations (parseOpenApiSpec engine item_document)) =
     [[\<lparr> pp_name = ''id'', pp_in = ''path'', pp_required = True,
         pp_description = Some ''path level'', pp_type = ''string'', pp_format = None \<rparr>,
       \<lparr> pp_name = ''id'', pp_in = ''path'', pp_required = True,
         pp_description = Some ''operation level'', pp_type = ''string'', pp_format = None \<rparr>]]"
  by (simp add: parse_defs item_document_def item_item_def getItem_def id_path_level_def
        id_operation_level_def)

text \<open>
  C3, as amended: the parameter list of a parsed operation is the inline parameters of the
  path item followed by the inline parameters of the operation, each parsed, in the order of
  declaration; reference parameters are skipped and no name is removed, so a name declared
  at both levels appears twice, the path-level one first.
\<close>

theorem parameters_are_concatenated:
  assumes "op \<in> set (api_operations (parseOpenApiSpec uc doc))"
  shows "\<exists>path item method operation.
           operation_node doc path item method operation
         \<and> op = parseOperation uc path item method operation
         \<and> op_parameters op = map parseParameter (inline_parameters (pi_parameters item))
                                @ map parseParameter (inline_parameters (oo_parameters operation))
         \<and> map pp_name (op_parameters op)
             = map po_name (inline_parameters (pi_parameters item))
               @ map po_name (inline_parameters (oo_parameters operation))"
proof -
  from assms obtain path item meth operation
    where src: "operation_node doc path item meth operation"
      and op: "op = parseOperation uc path item meth operation"
    by (auto simp: operations_of_document)
  have "op_parameters op = map parseParameter (inline_parameters (pi_parameters item))
                           @ map parseParameter (inline_parameters (oo_parameters operation))"
    by (simp add: op parseOperation_def Let_def)
  moreover from this have "map pp_name (op_parameters op)
             = map po_name (inline_parameters (pi_parameters item))
               @ map po_name (inline_parameters (oo_parameters operation))"
    by (simp add: parseParameter_def)
  ultimately show ?thesis using src op by blast
qed

text \<open>The theorem at the document with \<open>id\<close> declared twice.\<close>

theorem parameters_are_concatenated_witness:
  "parseOperation engine ''/items/{id}'' item_item ''get'' getItem
     \<in> set (api_operations (parseOpenApiSpec engine item_document))
   \<and> (\<exists>path item method operation.
           operation_node item_document path item method operation
         \<and> parseOperation engine ''/items/{id}'' item_item ''get'' getItem
             = parseOperation engine path item method operation
         \<and> op_parameters (parseOperation engine ''/items/{id}'' item_item ''get'' getItem)
             = map parseParameter (inline_parameters (pi_parameters item))
               @ map parseParameter (inline_parameters (oo_parameters operation))
         \<and> map pp_name (op_parameters (parseOperation engine ''/items/{id}'' item_item ''get'' getItem))
             = map po_name (inline_parameters (pi_parameters item))
               @ map po_name (inline_parameters (oo_parameters operation)))"
proof -
  have node: "operation_node item_document ''/items/{id}'' item_item ''get'' getItem"
    by (simp add: operation_node_def item_document_def item_item_def)
  then have h: "parseOperation engine ''/items/{id}'' item_item ''get'' getItem
             \<in> set (api_operations (parseOpenApiSpec engine item_document))"
    by (auto simp: operations_of_document)
  from parameters_are_concatenated [OF h] h show ?thesis by simp
qed


subsection \<open>Composition keywords and the shape of a parsed schema\<close>

lemma parseSchema_allOf:
  "parseSchema (Some (SchemaObject ty descr nullable fmt enum items props req (Some (a # as)) oneOf anyOf))
     = parseSchema (Some a)"
  by (simp add: parseSchema.simps(3) Let_def)

lemma parseSchema_oneOf:
  "allOf = None \<or> allOf = Some [] \<Longrightarrow>
   parseSchema (Some (SchemaObject ty descr nullable fmt enum items props req allOf (Some (b # bs)) anyOf))
     = parseSchema (Some b)"
  by (auto simp add: parseSchema.simps(3) Let_def)

lemma parseSchema_anyOf:
  "allOf = None \<or> allOf = Some [] \<Longrightarrow> oneOf = None \<or> oneOf = Some [] \<Longrightarrow>
   parseSchema (Some (SchemaObject ty descr nullable fmt enum items props req allOf oneOf (Some (c # cs))))
     = parseSchema (Some c)"
  by (auto simp add: parseSchema.simps(3) Let_def)

lemma no_branch:
  "bs = None \<or> bs = Some [] \<Longrightarrow>
   (case bs of None \<Rightarrow> y | Some [] \<Rightarrow> y | Some (a # as) \<Rightarrow> f a as) = y"
  by auto

lemma parseSchema_inline:
  assumes "allOf = None \<or> allOf = Some []" "oneOf = None \<or> oneOf = Some []"
    "anyOf = None \<or> anyOf = Some []"
  shows "parseSchema (Some (SchemaObject ty descr nullable fmt enum items props req allOf oneOf anyOf))
     = ParsedSchema
         (if enum \<noteq> None then ''enum'' else or_else ty ''object'')
         (if truthy fmt then fmt else None)
         descr
         (if ty = Some ''object'' \<or> props \<noteq> None
          then Some (map (\<lambda>(key, v). (key, parseSchema (Some v))) (case props of None \<Rightarrow> [] | Some ps \<Rightarrow> ps))
          else None)
         (if ty = Some ''array'' then map_option (\<lambda>i. parseSchema (Some i)) items else None)
         (if ty = Some ''object'' \<or> props \<noteq> None then req else None)
         enum nullable None"
  apply (subst parseSchema.simps)
  apply (simp only: no_branch [OF assms(1)] no_branch [OF assms(2)] no_branch [OF assms(3)] Let_def)
  apply (cases fmt; cases enum; cases items; cases props; cases req; simp add: truthy_def)
  done

lemma branch_cases:
  "(bs = None \<or> bs = Some []) \<or> (\<exists>b r. bs = Some (b # r))"
  by (metis list.exhaust option.exhaust)

lemma parseSchema_ref_exclusive: "ref_exclusive (parseSchema (Some s))"
proof (induction s)
  case (ReferenceObject r)
  show ?case by simp
next
  case (SchemaObject ty descr nullable fmt enum items props req allOf oneOf anyOf)
  consider (allOf) a as where "allOf = Some (a # as)"
    | (oneOf) b bs where "allOf = None \<or> allOf = Some []" "oneOf = Some (b # bs)"
    | (anyOf) c cs where "allOf = None \<or> allOf = Some []" "oneOf = None \<or> oneOf = Some []"
        "anyOf = Some (c # cs)"
    | (inline) "allOf = None \<or> allOf = Some []" "oneOf = None \<or> oneOf = Some []"
        "anyOf = None \<or> anyOf = Some []"
    using branch_cases [of allOf] branch_cases [of oneOf] branch_cases [of anyOf] by blast
  then show ?case
  proof cases
    case allOf
    with SchemaObject.IH(3) [of "a # as" a] show ?thesis
      by (simp add: parseSchema_allOf)
  next
    case oneOf
    with SchemaObject.IH(4) [of "b # bs" b] show ?thesis
      by (simp add: parseSchema_oneOf)
  next
    case anyOf
    with SchemaObject.IH(5) [of "c # cs" c] show ?thesis
      by (simp add: parseSchema_anyOf)
  next
    case inline
    have items: "ref_exclusive (parseSchema (Some i))" if "items = Some i" for i
      using SchemaObject.IH(1) [of i] that by simp
    have props: "list_all (\<lambda>(k, q). ref_exclusive q) (map (\<lambda>(key, v). (key, parseSchema (Some v))) ps)"
      if "props = Some ps" for ps
      using SchemaObject.IH(2) [of ps] that by (fastforce simp: list_all_iff)
    show ?thesis
      using items props by (cases items; cases props) (simp_all add: parseSchema_inline [OF inline])
  qed
qed


lemma parseSchema_option_ref_exclusive: "ref_exclusive (parseSchema s)"
  by (cases s) (simp_all add: parseSchema_ref_exclusive)

lemma parseRequestBody_schema:
  "parseRequestBody b = Some body \<Longrightarrow> \<exists>s. rb_schema body = parseSchema s"
  by (auto simp: parseRequestBody_def Let_def split: option.splits request_body_node.splits if_splits)

lemma parseResponse_schema:
  "pr_schema (parseResponse code r) = Some s \<Longrightarrow> \<exists>x. s = parseSchema x"
  by (auto simp: parseResponse_def Let_def split: option.splits response_node.splits if_splits)

lemma schemas_of_parsed_operation:
  assumes "s \<in> set (schemas_of_operation (parseOperation uc path item meth operation))"
  shows "\<exists>x. s = parseSchema x"
proof -
  let ?op = "parseOperation uc path item meth operation"
  have rb: "op_requestBody ?op = parseRequestBody (oo_requestBody operation)"
    by (simp add: parseOperation_def Let_def)
  have rs: "\<exists>code x. r = parseResponse code x" if "r \<in> set (op_responses ?op)" for r
    using that by (auto simp: parseOperation_def Let_def parseResponses_def)
  from assms have
    "(\<exists>body. op_requestBody ?op = Some body \<and> s = rb_schema body)
     \<or> (\<exists>r\<in>set (op_responses ?op). pr_schema r = Some s)"
    by (cases "op_requestBody ?op") (auto simp: schemas_of_operation_def split: option.splits)
  then consider
      (body) body where "op_requestBody ?op = Some body" "s = rb_schema body"
    | (response) r where "r \<in> set (op_responses ?op)" "pr_schema r = Some s"
    by blast
  then show ?thesis
  proof cases
    case body
    then show ?thesis using parseRequestBody_schema [of "oo_requestBody operation" body] rb by simp
  next
    case response
    from rs [OF response(1)] obtain code x where "r = parseResponse code x" by blast
    with response(2) show ?thesis using parseResponse_schema [of code x s] by simp
  qed
qed


subsection \<open>C5: which fields of a parsed schema are populated\<close>

text \<open>
  C5 claims that exactly one of the groups (leaf, enum, items, properties, reference) is
  populated, and in particular that no schema is at once an enum and an object with
  properties. The named schema \<open>Status\<close> below has \<open>enum\<close> and \<open>properties\<close> in the
  source, and its parse has both.
\<close>

theorem status_both_enum_and_object_counterexample:
  "api_schemas (parseOpenApiSpec engine status_document) =
     [(''Status'',
       ParsedSchema ''enum'' None None
         (Some [(''code'', ParsedSchema ''integer'' None None None None None None None None)])
         None None (Some [''on'', ''off'']) None None),
      (''Alias'',
       ParsedSchema ''Status'' None None None None None None None
         (Some ''#/components/schemas/Status''))]"
  by (simp add: parseOpenApiSpec_def status_document_def status_schema_def parseSchema.simps(3)
        or_else_def truthy_def getRefName_def)

text \<open>
  C5, as amended: in every schema of the IR (named schemas, request bodies, responses) and
  in every schema nested in one as array items or as a property, at any depth, a schema
  with a reference populates no other optional field: format, description, properties,
  items, required, enum and nullable are all absent. So no schema of the IR is at once a
  reference and an inline object, enum or array.
\<close>

theorem reference_schema_populates_nothing_else:
  assumes "s \<in> set (schemas_of_api (parseOpenApiSpec uc doc))"
  shows "ref_exclusive s"
proof -
  from assms consider
      (named) name where "(name, s) \<in> set (api_schemas (parseOpenApiSpec uc doc))"
    | (operation) op where "op \<in> set (api_operations (parseOpenApiSpec uc doc))"
        "s \<in> set (schemas_of_operation op)"
    by (auto simp: schemas_of_api_def)
  then have "\<exists>x. s = parseSchema x"
  proof cases
    case named
    then show ?thesis
      by (auto simp: parseOpenApiSpec_def Let_def split: option.splits)
  next
    case operation
    then show ?thesis
      by (auto simp: operations_of_document dest: schemas_of_parsed_operation)
  qed
  then show ?thesis by (auto simp: parseSchema_option_ref_exclusive)
qed

text \<open>The theorem at the named schema that is a reference.\<close>

theorem reference_schema_populates_nothing_else_witness:
  "ParsedSchema ''Status'' None None None None None None None (Some ''#/components/schemas/Status'')
     \<in> set (schemas_of_api (parseOpenApiSpec engine status_document))
   \<and> ref_exclusive
       (ParsedSchema ''Status'' None None None None None None None (Some ''#/components/schemas/Status''))"
proof -
  have h: "ParsedSchema ''Status'' None None None None None None None (Some ''#/components/schemas/Status'')
     \<in> set (schemas_of_api (parseOpenApiSpec engine status_document))"
    by (simp add: schemas_of_api_def parseOpenApiSpec_def status_document_def getRefName_def)
  from reference_schema_populates_nothing_else [OF h] h show ?thesis by simp
qed


subsection \<open>C7: the first branch of a composition\<close>

text \<open>
  C7: a schema node with a non-empty \<open>allOf\<close> parses to the parse of its first branch,
  whatever else the node holds; with no \<open>allOf\<close> branch the same holds for \<open>oneOf\<close>, and
  with neither for \<open>anyOf\<close>. In particular \<open>allOf: [A, B]\<close> with \<open>A\<close> a reference parses
  as the bare reference \<open>A\<close>.
\<close>

theorem composition_takes_first_branch:
  "parseSchema (Some (SchemaObject ty descr nullable fmt enum items props req (Some (a # as)) oneOf anyOf))
     = parseSchema (Some a)
   \<and> (allOf = None \<or> allOf = Some [] \<longrightarrow>
        parseSchema (Some (SchemaObject ty descr nullable fmt enum items props req allOf (Some (b # bs)) anyOf))
          = parseSchema (Some b))
   \<and> ((allOf = None \<or> allOf = Some []) \<and> (oneOf' = None \<or> oneOf' = Some []) \<longrightarrow>
        parseSchema (Some (SchemaObject ty descr nullable fmt enum items props req allOf oneOf' (Some (c # cs))))
          = parseSchema (Some c))
   \<and> parseSchema (Some (SchemaObject ty descr nullable fmt enum items props req
                          (Some [ReferenceObject r, B]) oneOf anyOf))
       = parseSchema (Some (ReferenceObject r))"
  using parseSchema_oneOf [of allOf ty descr nullable fmt enum items props req b bs anyOf]
    parseSchema_anyOf [of allOf oneOf' ty descr nullable fmt enum items props req c cs]
  by (simp only: parseSchema_allOf) blast

text \<open>The theorem at a node with an empty \<open>allOf\<close> and the branches \<open>Cat\<close> and \<open>Dog\<close> under \<open>oneOf\<close>.\<close>

theorem composition_takes_first_branch_witness:
  "(Some [] = None \<or> Some [] = Some ([] :: schema_node list))
   \<and> parseSchema (Some cat_or_dog) = parseSchema (Some (ReferenceObject ''#/components/schemas/Cat''))
   \<and> parseSchema (Some cat_or_dog)
       = ParsedSchema ''Cat'' None None None None None None None (Some ''#/components/schemas/Cat'')"
  using composition_takes_first_branch
    [where allOf = "Some []" and b = "ReferenceObject ''#/components/schemas/Cat''"
       and bs = "[ReferenceObject ''#/components/schemas/Dog'']" and ty = "Some ''object''"
       and descr = "Some ''a pet''" and nullable = None and fmt = None and enum = None
       and items = None and props = None and req = None and anyOf = None]
  by (simp add: cat_or_dog_def getRefName_def)


section \<open>Properties of the identifiers\<close>

lemma upper_letters_ascii: "c \<in> set upper_letters \<Longrightarrow> is_ascii c"
  unfolding upper_letters_def set_simps insert_iff empty_iff
  by (elim disjE) (simp_all add: is_ascii_def)

lemma lower_letters_ascii: "c \<in> set lower_letters \<Longrightarrow> is_ascii c"
  unfolding lower_letters_def set_simps insert_iff empty_iff
  by (elim disjE) (simp_all add: is_ascii_def)

lemma digits_ascii: "c \<in> set digits \<Longrightarrow> is_ascii c"
  unfolding digits_def set_simps insert_iff empty_iff
  by (elim disjE) (simp_all add: is_ascii_def)

lemma is_alnum_ascii: "is_alnum c \<Longrightarrow> is_ascii c"
  using upper_letters_ascii lower_letters_ascii digits_ascii by (auto simp: is_alnum_def)

lemma ascii_toUpperCase_cases:
  "ascii_toUpperCase c = c \<or> ascii_toUpperCase c \<in> set upper_letters"
proof (cases "map_of (zip lower_letters upper_letters) c")
  case None
  then show ?thesis by (simp add: ascii_toUpperCase_def)
next
  case (Some l)
  then have "l \<in> set upper_letters"
    by (meson map_of_SomeD set_zip_rightD)
  with Some show ?thesis by (simp add: ascii_toUpperCase_def)
qed

lemma ascii_toLowerCase_cases:
  "ascii_toLowerCase c = c \<or> ascii_toLowerCase c \<in> set lower_letters"
proof (cases "map_of (zip upper_letters lower_letters) c")
  case None
  then show ?thesis by (simp add: ascii_toLowerCase_def)
next
  case (Some l)
  then have "l \<in> set lower_letters"
    by (meson map_of_SomeD set_zip_rightD)
  with Some show ?thesis by (simp add: ascii_toLowerCase_def)
qed

lemma ascii_toUpperCase_ascii: "is_ascii c \<Longrightarrow> is_ascii (ascii_toUpperCase c)"
  using ascii_toUpperCase_cases [of c] upper_letters_ascii by auto

lemma ascii_toLowerCase_ascii: "is_ascii c \<Longrightarrow> is_ascii (ascii_toLowerCase c)"
  using ascii_toLowerCase_cases [of c] lower_letters_ascii by auto

lemma ascii_toUpperCase_idem: "ascii_toUpperCase (ascii_toUpperCase c) = ascii_toUpperCase c"
  by (simp add: case_defs)

lemma ascii_toLowerCase_upper:
  assumes "c \<in> set upper_letters"
  shows "ascii_toUpperCase (ascii_toLowerCase c) = c"
  using assms unfolding upper_letters_def set_simps insert_iff empty_iff
  by (elim disjE) (simp_all add: case_defs)

lemma ascii_toUpperCase_upper:
  assumes "c \<in> set upper_letters"
  shows "ascii_toUpperCase c = c"
  using assms unfolding upper_letters_def set_simps insert_iff empty_iff
  by (elim disjE) (simp_all add: case_defs)

lemma ascii_toLowerCase_other:
  assumes "c \<notin> set upper_letters"
  shows "ascii_toLowerCase c = c"
proof -
  from assms have "map_of (zip upper_letters lower_letters) c = None"
    by (simp add: map_of_zip_is_None upper_letters_def lower_letters_def)
  then show ?thesis by (simp add: ascii_toLowerCase_def)
qed

lemma ascii_upper_of_lower: "ascii_toUpperCase (ascii_toLowerCase c) = ascii_toUpperCase c"
  by (cases "c \<in> set upper_letters")
     (simp_all add: ascii_toLowerCase_upper ascii_toUpperCase_upper ascii_toLowerCase_other)

text \<open>On ASCII text the engine is not asked.\<close>

lemma toLowerCase_ascii: "list_all is_ascii s \<Longrightarrow> toLowerCase uc s = map ascii_toLowerCase s"
  by (simp add: toLowerCase_def)

lemma toLowerCase_keeps_ascii:
  "list_all is_ascii s \<Longrightarrow> list_all is_ascii (toLowerCase uc s)"
  by (simp add: toLowerCase_def list_all_iff ascii_toLowerCase_ascii)

lemma capitalize_ascii:
  "list_all is_ascii p \<Longrightarrow>
   capitalize uc p = (case p of [] \<Rightarrow> [] | c # cs \<Rightarrow> ascii_toUpperCase c # cs)"
  by (cases p) (simp_all add: capitalize_def)

lemma capitalize_keeps_ascii: "list_all is_ascii p \<Longrightarrow> list_all is_ascii (capitalize uc p)"
  by (cases p) (simp_all add: capitalize_def ascii_toUpperCase_ascii)

lemma capitalize_idem:
  "list_all is_ascii p \<Longrightarrow> capitalize uc (capitalize uc p) = capitalize uc p"
  by (cases p) (simp_all add: capitalize_def ascii_toUpperCase_ascii ascii_toUpperCase_idem)

lemma capitalize_toLowerCase:
  assumes "list_all is_ascii s" and "no_upper (tl s)"
  shows "capitalize uc (toLowerCase uc s) = capitalize uc s"
proof (cases s)
  case Nil
  then show ?thesis by (simp add: toLowerCase_def)
next
  case (Cons c cs)
  with assms(2) have "map ascii_toLowerCase cs = cs"
    by (simp add: no_upper_def list_all_iff map_idI ascii_toLowerCase_other)
  with assms(1) Cons show ?thesis
    by (simp add: toLowerCase_def capitalize_def ascii_toLowerCase_ascii ascii_upper_of_lower)
qed

lemma split_keeps_ascii:
  "list_all is_ascii s \<Longrightarrow> p \<in> set (str_split c s) \<Longrightarrow> list_all is_ascii p"
proof (induction s arbitrary: p)
  case Nil
  then show ?case by simp
next
  case (Cons x xs)
  then show ?case
    by (cases "str_split c xs") (auto split: if_splits)
qed

lemma later_parts:
  "map (\<lambda>(i, p). if i = 0 then f p else g p) (enumerate (Suc n) xs) = map g xs"
  by (induction xs arbitrary: n) simp_all

lemma str_join_empty: "str_join [] xs = concat xs"
  by (induction "[] :: string" xs rule: str_join.induct) simp_all

lemma generateOperationId_parts:
  assumes "list_all is_ascii path"
  shows "generateOperationId uc method path =
     toLowerCase uc method
     @ (case nonParameterSegments path of
          [] \<Rightarrow> []
        | s # rest \<Rightarrow> capitalize uc (toLowerCase uc s) @ concat (map (capitalize uc) rest))"
proof (cases "nonParameterSegments path")
  case Nil
  then show ?thesis
    by (simp add: generateOperationId_def nonParameterSegments_def)
next
  case (Cons s rest)
  have "list_all is_ascii p" if "p \<in> set rest" for p
    using that Cons assms split_keeps_ascii [of path p "CHR ''/''"]
    by (metis filter_is_subset list.set_intros(2) nonParameterSegments_def subsetD)
  then have twice: "concat (map (capitalize uc \<circ> capitalize uc) rest) = concat (map (capitalize uc) rest)"
    by (intro arg_cong [where f = concat] map_cong) (simp_all add: capitalize_idem)
  show ?thesis
    by (simp add: generateOperationId_def nonParameterSegments_def [symmetric] Let_def later_parts
          str_join_empty Cons twice)
qed


subsection \<open>C6: the synthesized operation identifier\<close>

text \<open>
  A text of ASCII letters and digits is one piece, and a path whose segments are such
  texts has the same segments for the code and for the specification.
\<close>

lemma alnum_only_pieces: "list_all is_alnum s \<Longrightarrow> spec_pieces s = [s]"
  by (induction s) simp_all

lemma spec_pascalCase_alnum: "list_all is_alnum s \<Longrightarrow> spec_pascalCase uc s = capitalize uc s"
  by (simp add: spec_pascalCase_def alnum_only_pieces)

lemma alnum_no_brace: "list_all is_alnum p \<Longrightarrow> \<not> prefix ''{'' p"
  by (cases p) (auto simp: is_alnum_def lower_letters_def upper_letters_def digits_def)

lemma segments_agree:
  assumes "\<forall>s\<in>set (spec_segments path). list_all is_alnum s"
  shows "nonParameterSegments path = filter (\<lambda>p. p \<noteq> []) (spec_segments path)"
proof -
  have "(p \<noteq> [] \<and> \<not> prefix ''{'' p) \<longleftrightarrow> (\<not> (prefix ''{'' p \<and> suffix ''}'' p) \<and> p \<noteq> [])"
    if "p \<in> set (str_split CHR ''/'' path)" for p
  proof (cases "prefix ''{'' p \<and> suffix ''}'' p")
    case True
    then show ?thesis by simp
  next
    case False
    with that assms have "list_all is_alnum p"
      by (simp add: spec_segments_def)
    then have "\<not> prefix ''{'' p" by (rule alnum_no_brace)
    with False show ?thesis by auto
  qed
  then show ?thesis
    unfolding nonParameterSegments_def spec_segments_def filter_filter
    by (intro filter_cong) simp_all
qed

lemma concat_skips_empty:
  assumes "f [] = []"
  shows "concat (map f xs) = concat (map f (filter (\<lambda>p. p \<noteq> []) xs))"
  using assms by (induction xs) simp_all

text \<open>
  C6 claims that the synthesized identifier is the lower-cased method followed by the
  PascalCase of each non-parameter segment. \<open>generateOperationId\<close> lower-cases the whole
  first segment and never looks at separators inside a segment.
\<close>

theorem operation_id_counterexample:
  "generateOperationId engine ''get'' ''/petStore/find-by-status'' = ''getPetstoreFind-by-status''
   \<and> spec_operationId engine ''get'' ''/petStore/find-by-status'' = ''getPetStoreFindByStatus''"
  by (simp add: generateOperationId_def spec_operationId_def spec_segments_def spec_pascalCase_def
        toLowerCase_def capitalize_def is_ascii_def is_alnum_def digits_def case_defs)

text \<open>
  C6, as amended: an operation node whose explicit identifier is absent or empty gets the
  synthesized identifier. For a path of ASCII text, the synthesized identifier is the
  lower-cased method followed by the first non-empty segment that does not start with
  \<open>{\<close>, lower-cased and then capitalized, and by every later such segment with its
  first character upper-cased and the rest unchanged. It is the lower-cased method followed by
  the PascalCase of the segments that are not placeholders whenever each of these
  segments consists of ASCII letters and digits only and the first non-empty one has no
  upper-case letter after its first character; in particular
  \<open>GET /pet/{petId}/uploadImage\<close> yields \<open>getPetUploadImage\<close> and
  \<open>POST /user/createWithList\<close> yields \<open>postUserCreateWithList\<close>.
\<close>

theorem synthesized_operation_id:
  "(\<not> truthy (oo_operationId operation) \<longrightarrow>
      op_operationId (parseOperation uc path item method operation)
        = generateOperationId uc method path)
   \<and> (list_all is_ascii path \<longrightarrow>
      generateOperationId uc method path =
        toLowerCase uc method
        @ (case nonParameterSegments path of
             [] \<Rightarrow> []
           | s # rest \<Rightarrow> capitalize uc (toLowerCase uc s) @ concat (map (capitalize uc) rest)))
   \<and> ((\<forall>s\<in>set (spec_segments path). list_all is_alnum s)
        \<and> (case filter (\<lambda>p. p \<noteq> []) (spec_segments path) of
              [] \<Rightarrow> True | s # rest \<Rightarrow> no_upper (tl s))
       \<longrightarrow> generateOperationId uc method path = spec_operationId uc method path)
   \<and> generateOperationId uc ''GET'' ''/pet/{petId}/uploadImage'' = ''getPetUploadImage''
   \<and> generateOperationId uc ''POST'' ''/user/createWithList'' = ''postUserCreateWithList''"
proof (intro conjI impI)
  assume "\<not> truthy (oo_operationId operation)"
  then show "op_operationId (parseOperation uc path item method operation)
               = generateOperationId uc method path"
    by (cases "oo_operationId operation")
       (simp_all add: parseOperation_def Let_def or_else_def truthy_def)
next
  assume "list_all is_ascii path"
  then show "generateOperationId uc method path =
        toLowerCase uc method
        @ (case nonParameterSegments path of
             [] \<Rightarrow> []
           | s # rest \<Rightarrow> capitalize uc (toLowerCase uc s) @ concat (map (capitalize uc) rest))"
    by (rule generateOperationId_parts)
next
  assume a: "(\<forall>s\<in>set (spec_segments path). list_all is_alnum s)
        \<and> (case filter (\<lambda>p. p \<noteq> []) (spec_segments path) of
              [] \<Rightarrow> True | s # rest \<Rightarrow> no_upper (tl s))"
  then have alnum: "list_all is_alnum s" if "s \<in> set (spec_segments path)" for s
    using that by blast
  from a have kept: "nonParameterSegments path = filter (\<lambda>p. p \<noteq> []) (spec_segments path)"
    by (simp add: segments_agree)
  have ascii: "list_all is_ascii s" if "s \<in> set (nonParameterSegments path)" for s
    using that alnum [of s] is_alnum_ascii by (auto simp: kept list_all_iff)
  have plain: "map (spec_pascalCase uc) (spec_segments path) = map (capitalize uc) (spec_segments path)"
    by (intro map_cong) (simp_all add: alnum spec_pascalCase_alnum)
  have spec: "spec_operationId uc method path
                = toLowerCase uc method @ concat (map (capitalize uc) (nonParameterSegments path))"
    unfolding spec_operationId_def plain kept
    using concat_skips_empty [of "capitalize uc" "spec_segments path"]
    by (simp add: capitalize_def)
  show "generateOperationId uc method path = spec_operationId uc method path"
  proof (cases "nonParameterSegments path")
    case Nil
    then show ?thesis
      by (simp add: spec generateOperationId_def nonParameterSegments_def)
  next
    case (Cons s rest)
    from a have "case nonParameterSegments path of [] \<Rightarrow> True | s # rest \<Rightarrow> no_upper (tl s)"
      unfolding kept by blast
    with Cons have "no_upper (tl s)" by simp
    with ascii [of s] Cons have first: "capitalize uc (toLowerCase uc s) = capitalize uc s"
      by (simp add: capitalize_toLowerCase)
    have "list_all is_ascii p" if "p \<in> set rest" for p
      using that ascii [of p] Cons by simp
    then have twice: "concat (map (capitalize uc \<circ> capitalize uc) rest) = concat (map (capitalize uc) rest)"
      by (intro arg_cong [where f = concat] map_cong) (simp_all add: capitalize_idem)
    show ?thesis
      by (simp add: spec generateOperationId_def nonParameterSegments_def [symmetric] Let_def
            later_parts str_join_empty Cons twice first)
  qed
next
  show "generateOperationId uc ''GET'' ''/pet/{petId}/uploadImage'' = ''getPetUploadImage''"
    by (simp add: generateOperationId_def toLowerCase_def capitalize_def is_ascii_def case_defs)
next
  show "generateOperationId uc ''POST'' ''/user/createWithList'' = ''postUserCreateWithList''"
    by (simp add: generateOperationId_def toLowerCase_def capitalize_def is_ascii_def case_defs)
qed

text \<open>The theorem at \<open>GET /pet/{petId}/uploadImage\<close>.\<close>

theorem synthesized_operation_id_witness:
  "\<not> truthy (oo_operationId listPets)
   \<and> op_operationId (parseOperation engine ''/pet/{petId}/uploadImage'' pet_item ''get'' listPets)
       = generateOperationId engine ''get'' ''/pet/{petId}/uploadImage''
   \<and> list_all is_ascii ''/pet/{petId}/uploadImage''
   \<and> spec_segments ''/pet/{petId}/uploadImage'' = ['''', ''pet'', ''uploadImage'']
   \<and> generateOperationId engine ''get'' ''/pet/{petId}/uploadImage''
       = toLowerCase engine ''get''
         @ capitalize engine (toLowerCase engine ''pet'') @ concat (map (capitalize engine) [''uploadImage''])
   \<and> generateOperationId engine ''get'' ''/pet/{petId}/uploadImage''
       = spec_operationId engine ''get'' ''/pet/{petId}/uploadImage''
   \<and> spec_operationId engine ''get'' ''/pet/{petId}/uploadImage'' = ''getPetUploadImage''"
proof -
  have ascii: "list_all is_ascii ''/pet/{petId}/uploadImage''"
    by (simp add: is_ascii_def)
  have segments: "spec_segments ''/pet/{petId}/uploadImage'' = ['''', ''pet'', ''uploadImage'']"
    by (simp add: spec_segments_def suffix_to_prefix)
  have kept: "nonParameterSegments ''/pet/{petId}/uploadImage'' = [''pet'', ''uploadImage'']"
    by (simp add: nonParameterSegments_def)
  have h: "(\<forall>s\<in>set (spec_segments ''/pet/{petId}/uploadImage''). list_all is_alnum s)
    \<and> (case filter (\<lambda>p. p \<noteq> []) (spec_segments ''/pet/{petId}/uploadImage'') of
          [] \<Rightarrow> True | s # rest \<Rightarrow> no_upper (tl s))"
    by (simp add: segments is_alnum_def no_upper_def lower_letters_def upper_letters_def digits_def)
  have omitted: "\<not> truthy (oo_operationId listPets)"
    by (simp add: listPets_def truthy_def)
  note inst = synthesized_operation_id
    [of listPets engine "''/pet/{petId}/uploadImage''" pet_item "''get''"]
  have parsed: "op_operationId (parseOperation engine ''/pet/{petId}/uploadImage'' pet_item ''get'' listPets)
       = generateOperationId engine ''get'' ''/pet/{petId}/uploadImage''"
    using inst omitted by blast
  have parts: "generateOperationId engine ''get'' ''/pet/{petId}/uploadImage''
       = toLowerCase engine ''get''
         @ capitalize engine (toLowerCase engine ''pet'') @ concat (map (capitalize engine) [''uploadImage''])"
    using inst ascii by (simp add: kept)
  have e: "generateOperationId engine ''get'' ''/pet/{petId}/uploadImage''
             = spec_operationId engine ''get'' ''/pet/{petId}/uploadImage''"
    using inst h by blast
  have v: "generateOperationId engine ''get'' ''/pet/{petId}/uploadImage'' = ''getPetUploadImage''"
    by (simp add: generateOperationId_def toLowerCase_def capitalize_def is_ascii_def case_defs)
  from omitted parsed ascii segments parts e v show ?thesis by simp
qed


section \<open>Properties of generation\<close>



subsection \<open>C4: two operations under one identifier\<close>








subsection \<open>C10: a request body that is a reference, or has no content\<close>

lemma parseRequestBody_reference: "parseRequestBody (Some (RequestBodyReference r)) = None"
  by (simp add: parseRequestBody_def)

lemma parseRequestBody_no_content:
  "rbo_content body = [] \<Longrightarrow> parseRequestBody (Some (RequestBody body)) = None"
  by (simp add: parseRequestBody_def pickContentType_def js_or_def truthy_def)

text \<open>
  C10: for an operation node whose request body is a reference object, or whose request
  body has an empty content map, the parsed operation has no request body; no request
  type is named or declared for it, and the argument list of its client method holds
  at most the \<open>params\<close> argument, so the method takes no body.
\<close>

theorem referenced_request_body_is_dropped:
  assumes "operation_node doc path item method operation"
    and "(\<exists>r. oo_requestBody operation = Some (RequestBodyReference r))
         \<or> (\<exists>body. oo_requestBody operation = Some (RequestBody body) \<and> rbo_content body = [])"
  shows "parseOperation uc path item method operation \<in> set (api_operations (parseOpenApiSpec uc doc))
       \<and> op_requestBody (parseOperation uc path item method operation) = None
       \<and> getRequestType (parseOperation uc path item method operation) = None
       \<and> generateRequestBodyInterface (parseOperation uc path item method operation) = None
       \<and> methodParams (parseOperation uc path item method operation)
           = (case getParamsType (parseOperation uc path item method operation) of
                None \<Rightarrow> []
              | Some paramsType \<Rightarrow>
                  [''params''
                   @ (if list_all (\<lambda>p. \<not> pp_required p)
                           (op_parameters (parseOperation uc path item method operation))
                      then ''?'' else [])
                   @ '': '' @ paramsType])"
proof -
  let ?op = "parseOperation uc path item method operation"
  from assms(1) have "?op \<in> set (api_operations (parseOpenApiSpec uc doc))"
    unfolding operations_of_document by blast
  moreover from assms(2) have none: "op_requestBody ?op = None"
    by (auto simp: parseOperation_def Let_def parseRequestBody_reference parseRequestBody_no_content)
  moreover from none have "getRequestType ?op = None"
    by (simp add: getRequestType_def)
  moreover from none have "generateRequestBodyInterface ?op = None"
    by (simp add: generateRequestBodyInterface_def)
  moreover from none have "methodParams ?op
           = (case getParamsType ?op of
                None \<Rightarrow> []
              | Some paramsType \<Rightarrow>
                  [''params''
                   @ (if list_all (\<lambda>p. \<not> pp_required p) (op_parameters ?op) then ''?'' else [])
                   @ '': '' @ paramsType])"
    by (simp add: methodParams_def getRequestType_def Let_def split: option.splits)
  ultimately show ?thesis by blast
qed

text \<open>The theorem at the operation whose request body is a reference.\<close>

theorem referenced_request_body_is_dropped_witness:
  "operation_node user_document ''/user'' user_item ''post'' createUser
   \<and> oo_requestBody createUser = Some (RequestBodyReference ''#/components/requestBodies/UserBody'')
   \<and> op_requestBody (parseOperation engine ''/user'' user_item ''post'' createUser) = None
   \<and> getRequestType (parseOperation engine ''/user'' user_item ''post'' createUser) = None
   \<and> methodParams (parseOperation engine ''/user'' user_item ''post'' createUser) = []"
proof -
  have h1: "operation_node user_document ''/user'' user_item ''post'' createUser"
    by (simp add: operation_node_def user_document_def user_item_def)
  have h2: "oo_requestBody createUser = Some (RequestBodyReference ''#/components/requestBodies/UserBody'')"
    by (simp add: createUser_def)
  have p: "getParamsType (parseOperation engine ''/user'' user_item ''post'' createUser) = None"
    by (simp add: getParamsType_def parseOperation_def user_item_def createUser_def)
  from referenced_request_body_is_dropped [OF h1] h2 h1 p show ?thesis
    by simp
qed


subsection \<open>C1: operations without a success schema\<close>

lemma deletePet_names:
  "pascalCase ''deletePet'' = ''DeletePet''" "camelCase uc ''deletePet'' = ''deletePet''"
  by (simp_all add: pascalCase_def camelCase_def is_word_char_def digits_def is_ascii_def case_defs)

lemma name_never_ends_with_void: "\<not> suffix ''void'' (name @ ''Response'')"
  by (simp add: suffix_to_prefix)

lemma return_statement_of_method:
  "last (butlast (generateMethodLines uc op baseUrlVar)) = returnStatement (getResponseType op)"
  by (simp add: generateMethodLines_def Let_def butlast_append)

text \<open>
  C1 claims that the two renderers agree on operations without a 2xx response that has a
  schema: the type is \<open>void\<close> and the client method returns nothing. The client tests
  whether the name of the response type ends with \<open>void\<close>; the name always ends with
  \<open>Response\<close>, so every generated method ends with \<open>return response.json();\<close>. For
  \<open>deletePet\<close> the type renderer declares \<open>void\<close> and the client method deserializes
  the body.
\<close>

theorem void_response_is_deserialized:
  "returnStatement (getResponseType op) = ''      return response.json();''
   \<and> last (butlast (generateMethodLines uc op baseUrlVar)) = ''      return response.json();''
   \<and> generateResponseType deletePet = ''export type DeletePetResponse = void;''
   \<and> generateMethodLines uc deletePet ''this.baseUrl'' =
       [''    deletePet: async (params: DeletePetParams): Promise<DeletePetResponse> => {'',
        ''      const response = await fetch(this.baseUrl + '' @ bt @ ''/pet/${params.petId}'' @ bt @ '', {'',
        ''        method: '' @ dq @ ''DELETE'' @ dq,
        ''      });'',
        [],
        ''      if (!response.ok) {'',
        ''        throw new Error('' @ bt @ ''HTTP ${response.status}: ${response.statusText}'' @ bt @ '');'',
        ''      }'',
        [],
        ''      return response.json();'',
        ''    },'']"
proof (intro conjI)
  show r: "returnStatement (getResponseType op) = ''      return response.json();''"
    by (simp add: returnStatement_def getResponseType_def name_never_ends_with_void)
  show "last (butlast (generateMethodLines uc op baseUrlVar)) = ''      return response.json();''"
    by (simp only: return_statement_of_method r)
  show "generateResponseType deletePet = ''export type DeletePetResponse = void;''"
    by (simp add: generateResponseType_def deletePet_def deletePet_names)
  show "generateMethodLines uc deletePet ''this.baseUrl'' =
       [''    deletePet: async (params: DeletePetParams): Promise<DeletePetResponse> => {'',
        ''      const response = await fetch(this.baseUrl + '' @ bt @ ''/pet/${params.petId}'' @ bt @ '', {'',
        ''        method: '' @ dq @ ''DELETE'' @ dq,
        ''      });'',
        [],
        ''      if (!response.ok) {'',
        ''        throw new Error('' @ bt @ ''HTTP ${response.status}: ${response.statusText}'' @ bt @ '');'',
        ''      }'',
        [],
        ''      return response.json();'',
        ''    },'']"
    by (simp add: generateMethodLines_def deletePet_def methodParams_def getResponseType_def
          getParamsType_def getRequestType_def getMethodName_def deletePet_names Let_def
          generatePathInterpolation_def str_replace_def generateQueryBuilder_def truthy_def
          returnStatement_def suffix_to_prefix)
qed

subsection \<open>C8: the client imports only declared types\<close>

lemma line_starts_append_right:
  "s \<in> set (line_starts t) \<Longrightarrow> s @ post \<in> set (line_starts (t @ post))"
  by (induction t) (auto split: if_splits)

lemma line_starts_append_left:
  "s \<in> set (line_starts t) \<Longrightarrow> s \<in> set (line_starts (pre @ t))"
  by (induction pre) auto

lemma line_starts_after_newline: "t \<in> set (line_starts (pre @ nl @ t))"
  by (induction pre) (auto simp: nl_def)

lemma at_line_start_prefix: "prefix pat text \<Longrightarrow> at_line_start pat text"
  by (simp add: at_line_start_def)

lemma at_line_start_append_right:
  assumes "at_line_start pat t"
  shows "at_line_start pat (t @ post)"
proof -
  from assms obtain s where s: "s = t \<or> s \<in> set (line_starts t)" "prefix pat s"
    by (auto simp: at_line_start_def list_ex_iff)
  then have "s @ post = t @ post \<or> s @ post \<in> set (line_starts (t @ post))"
    using line_starts_append_right by blast
  moreover from s have "prefix pat (s @ post)"
    by (simp add: prefix_prefix)
  ultimately show ?thesis
    by (auto simp: at_line_start_def list_ex_iff)
qed

lemma at_line_start_after_newline:
  assumes "at_line_start pat t"
  shows "at_line_start pat (pre @ nl @ t)"
proof -
  from assms obtain s where s: "s = t \<or> s \<in> set (line_starts t)" "prefix pat s"
    by (auto simp: at_line_start_def list_ex_iff)
  from s(1) have "s \<in> set (line_starts (pre @ nl @ t))"
    using line_starts_after_newline [of t pre] line_starts_append_left [of s t "pre @ nl"]
    by auto
  with s(2) show ?thesis
    by (auto simp: at_line_start_def list_ex_iff)
qed

lemma at_line_start_join:
  assumes "b \<in> set blocks" and "at_line_start pat b"
  shows "at_line_start pat (str_join nl blocks)"
  using assms(1)
proof (induction nl blocks rule: str_join.induct)
  case 1
  then show ?case by simp
next
  case (2 x)
  with assms(2) show ?case by simp
next
  case (3 x y ys)
  show ?case
  proof (cases "b = x")
    case True
    with assms(2) show ?thesis
      by (simp add: at_line_start_append_right)
  next
    case False
    with 3 have "at_line_start pat (str_join nl (y # ys))" by simp
    then show ?thesis
      using at_line_start_after_newline [of pat "str_join nl (y # ys)" x] by simp
  qed
qed

lemma declares_join:
  assumes "b \<in> set blocks" and "declares b name"
  shows "declares (str_join nl blocks) name"
  using assms by (auto simp: declares_def intro: at_line_start_join)

lemma response_type_declared:
  "declares (generateResponseType op) (getResponseType op)"
proof -
  have "prefix (''export type '' @ getResponseType op @ '' = '') (generateResponseType op)"
    by (simp add: generateResponseType_def getResponseType_def Let_def split: option.splits)
  then show ?thesis
    by (simp add: declares_def at_line_start_prefix)
qed

lemma params_type_declared:
  assumes "getParamsType op = Some name"
  shows "\<exists>block. generateParamsInterface op = Some block \<and> declares block name"
proof -
  from assms have nonempty: "filter (\<lambda>p. pp_in p = ''query'' \<or> pp_in p = ''path'') (op_parameters op) \<noteq> []"
    and name: "name = pascalCase (op_operationId op) @ ''Params''"
    by (auto simp: getParamsType_def Let_def split: if_splits)
  from nonempty obtain rest where
    "generateParamsInterface op = Some (str_join nl ((''export interface '' @ name @ '' {'') # rest))"
    by (simp add: generateParamsInterface_def Let_def name)
  moreover have "declares (str_join nl ((''export interface '' @ name @ '' {'') # rest)) name"
    by (rule declares_join [of "''export interface '' @ name @ '' {''"])
       (simp_all add: declares_def at_line_start_prefix)
  ultimately show ?thesis by blast
qed

lemma interface_declared: "declares (generateInterface name schema) name"
proof -
  obtain lines where lines: "lines = (if truthy (ps_description schema)
                   then [''/** '' @ the (ps_description schema) @ '' */''] else [])"
    by simp
  consider (EnumCase) e where "generateInterface name schema
        = str_join nl (lines @ [''export type '' @ name @ '' = '' @ quoted_union e @ '';''])"
    | (ObjectCase) rest where "generateInterface name schema
        = str_join nl (lines @ [''export interface '' @ name @ '' {''] @ rest)"
    | (AliasCase) "generateInterface name schema
        = str_join nl (lines @ [''export type '' @ name @ '' = '' @ schemaToTsType schema 0 @ '';''])"
    by (cases "nonempty (ps_enum schema)"; cases "nonempty (ps_properties schema)")
       (auto simp: generateInterface_def Let_def lines)
  then show ?thesis
  proof cases
    case EnumCase
    show ?thesis unfolding EnumCase
      by (rule declares_join [of "''export type '' @ name @ '' = '' @ quoted_union e @ '';''"])
         (simp_all add: declares_def at_line_start_prefix)
  next
    case ObjectCase
    show ?thesis unfolding ObjectCase
      by (rule declares_join [of "''export interface '' @ name @ '' {''"])
         (simp_all add: declares_def at_line_start_prefix)
  next
    case AliasCase
    show ?thesis unfolding AliasCase
      by (rule declares_join [of "''export type '' @ name @ '' = '' @ schemaToTsType schema 0 @ '';''"])
         (simp_all add: declares_def at_line_start_prefix)
  qed
qed

lemma request_type_declared:
  assumes "getRequestType op = Some name"
  shows "\<exists>block. generateRequestBodyInterface op = Some block \<and> declares block name"
proof -
  from assms obtain body where body: "op_requestBody op = Some body"
    and name: "name = pascalCase (op_operationId op) @ ''Request''"
    by (auto simp: getRequestType_def split: option.splits)
  show ?thesis
  proof (cases "truthy (ps_ref (rb_schema body))")
    case True
    then have "generateRequestBodyInterface op
                 = Some (''export type '' @ name @ '' = '' @ ps_type (rb_schema body) @ '';'')"
      by (simp add: generateRequestBodyInterface_def body name Let_def)
    then show ?thesis
      by (simp add: declares_def at_line_start_prefix)
  next
    case False
    then have "generateRequestBodyInterface op = Some (generateInterface name (rb_schema body))"
      by (simp add: generateRequestBodyInterface_def body name Let_def)
    then show ?thesis
      by (simp add: interface_declared)
  qed
qed

lemma referenced_type_declared:
  assumes "name \<in> set (referencedTypes op)"
  shows "\<exists>block\<in>set (operationTypeLines op). declares block name"
proof -
  from assms consider (response) "name = getResponseType op"
    | (params) "getParamsType op = Some name"
    | (request) "getRequestType op = Some name"
    by (auto simp: referencedTypes_def split: option.splits)
  then show ?thesis
  proof cases
    case response
    then show ?thesis
      by (auto simp: operationTypeLines_def response_type_declared)
  next
    case params
    from params_type_declared [OF params] show ?thesis
      by (auto simp: operationTypeLines_def)
  next
    case request
    from request_type_declared [OF request] show ?thesis
      by (auto simp: operationTypeLines_def)
  qed
qed

lemma set_add_set: "set (set_add s x) = insert x (set s)"
  by (auto simp: set_add_def)

lemma addTypeImports_set:
  "set (addTypeImports imports op) = set imports \<union> set (referencedTypes op)"
  by (auto simp: addTypeImports_def Let_def set_add_set referencedTypes_def getResponseType_def
        split: option.splits)

lemma typeImports_fold:
  "set (foldl addTypeImports acc ops) = set acc \<union> (\<Union>op\<in>set ops. set (referencedTypes op))"
  by (induction ops arbitrary: acc) (auto simp: addTypeImports_set)

lemma typeImports_set:
  "set (typeImports api) = (\<Union>op\<in>set (api_operations api). set (referencedTypes op))"
  by (simp add: typeImports_def typeImports_fold)

text \<open>
  C8: the names the client artifact imports are exactly the response, params and request
  type names that its method signatures mention, and the types artifact rendered from the
  same IR declares every one of them.
\<close>

theorem client_imports_are_declared:
  "set (typeImports api) = (\<Union>op\<in>set (api_operations api). set (referencedTypes op))
   \<and> (\<forall>name\<in>set (typeImports api). declares (generateTypes api) name)"
proof (intro conjI ballI)
  show "set (typeImports api) = (\<Union>op\<in>set (api_operations api). set (referencedTypes op))"
    by (rule typeImports_set)
next
  fix name
  assume "name \<in> set (typeImports api)"
  then obtain op where op: "op \<in> set (api_operations api)" "name \<in> set (referencedTypes op)"
    by (auto simp: typeImports_set)
  from referenced_type_declared [OF op(2)] obtain block
    where block: "block \<in> set (operationTypeLines op)" "declares block name"
    by blast
  from op(1) block(1) have "block \<in> set (generateTypesLines api)"
    by (auto simp: generateTypesLines_def)
  with block(2) show "declares (generateTypes api) name"
    by (auto simp: generateTypes_def intro: declares_join)
qed

lemma pet_names:
  "pascalCase ''deletePet'' = ''DeletePet''" "pascalCase ''addPet'' = ''AddPet''"
  by (simp_all add: pascalCase_def is_word_char_def digits_def case_defs)

text \<open>The theorem at the IR with \<open>deletePet\<close> and \<open>addPet\<close>.\<close>

theorem client_imports_are_declared_witness:
  "typeImports pet_api
     = [''DeletePetResponse'', ''DeletePetParams'', ''AddPetResponse'', ''AddPetRequest'']
   \<and> declares (generateTypes pet_api) ''DeletePetResponse''
   \<and> declares (generateTypes pet_api) ''DeletePetParams''
   \<and> declares (generateTypes pet_api) ''AddPetResponse''
   \<and> declares (generateTypes pet_api) ''AddPetRequest''"
proof -
  have names: "typeImports pet_api
     = [''DeletePetResponse'', ''DeletePetParams'', ''AddPetResponse'', ''AddPetRequest'']"
    by (simp add: typeImports_def addTypeImports_def pet_api_def deletePet_def addPet_def
          getParamsType_def getRequestType_def set_add_def pet_names)
  from client_imports_are_declared [of pet_api] show ?thesis
    by (simp add: names)
qed


section \<open>Properties of the spec locator\<close>

lemma discoverLoop_all_fail:
  assumes "\<forall>path\<in>set paths. attempt_fails w (baseUrl @ path)"
  shows "snd (discoverLoop w baseUrl paths) = None
       \<and> filter (prefix ''  Trying: '') (fst (discoverLoop w baseUrl paths))
           = map (\<lambda>path. ''  Trying: '' @ baseUrl @ path) paths"
  using assms
proof (induction paths)
  case Nil
  show ?case by simp
next
  case (Cons path paths)
  then have rest: "snd (discoverLoop w baseUrl paths) = None"
      "filter (prefix ''  Trying: '') (fst (discoverLoop w baseUrl paths))
           = map (\<lambda>path. ''  Trying: '' @ baseUrl @ path) paths"
    and this_one: "attempt_fails w (baseUrl @ path)"
    by simp_all
  from this_one show ?case
    by (auto simp: attempt_fails_def Let_def rest check_mark_def split: sum.splits if_splits)
qed

lemma discoverOrFail_all_fail:
  assumes "\<forall>path\<in>set SPEC_DISCOVERY_PATHS. attempt_fails w (getBaseUrl w url @ path)"
  shows "snd (discoverOrFail w url) = Inl (Error (notFoundMessage url (getBaseUrl w url)))
       \<and> filter (prefix ''  Trying: '') (fst (discoverOrFail w url))
           = map (\<lambda>path. ''  Trying: '' @ getBaseUrl w url @ path) SPEC_DISCOVERY_PATHS"
  using discoverLoop_all_fail [OF assms]
  by (simp add: discoverOrFail_def discoverSpec_def Let_def nl_def)

lemma notFoundMessage_carries:
  "sublist url (notFoundMessage url baseUrl)" "sublist baseUrl (notFoundMessage url baseUrl)"
proof -
  have "notFoundMessage url baseUrl =
      (''Could not find an OpenAPI specification.'' @ nl @ nl @ ''Tried:'' @ nl
       @ ''  1. Direct URL: '')
      @ url
      @ (nl @ ''  2. Discovery at common paths under: '' @ baseUrl @ nl @ nl
         @ ''Please ensure the URL points to a valid OpenAPI 3.x or Swagger 2.x specification,'' @ nl
         @ ''or that the API exposes a spec at a standard location.'')"
    by (simp add: notFoundMessage_def)
  then show "sublist url (notFoundMessage url baseUrl)"
    by (simp only: sublist_appendI)
  have "notFoundMessage url baseUrl =
      (''Could not find an OpenAPI specification.'' @ nl @ nl @ ''Tried:'' @ nl
       @ ''  1. Direct URL: '' @ url @ nl @ ''  2. Discovery at common paths under: '')
      @ baseUrl
      @ (nl @ nl
         @ ''Please ensure the URL points to a valid OpenAPI 3.x or Swagger 2.x specification,'' @ nl
         @ ''or that the API exposes a spec at a standard location.'')"
    by (simp add: notFoundMessage_def)
  then show "sublist baseUrl (notFoundMessage url baseUrl)"
    by (simp only: sublist_appendI)
qed

subsection \<open>C9: the error after the last probe\<close>

text \<open>
  C9 claims that the error carries the original URL, the origin and the list of attempted
  probe paths. The message names the URL and the origin; no probe path occurs in it.
\<close>

theorem not_found_error_omits_paths_counterexample:
  "snd (fetchOpenApiSpec offline ''https://api.example.com/v1/docs'')
     = Inl (Error (notFoundMessage ''https://api.example.com/v1/docs'' ''https://api.example.com''))
   \<and> filter (\<lambda>path. sublist path
                 (notFoundMessage ''https://api.example.com/v1/docs'' ''https://api.example.com''))
        SPEC_DISCOVERY_PATHS = []"
proof
  have fails: "fetchAndParse offline u = Inl ''fetch failed''" for u
    by (simp add: fetchAndParse_def offline_def)
  have none: "snd (discoverLoop offline b paths) = None" for b paths
    by (induction paths) (simp_all add: fails Let_def)
  have base: "getBaseUrl offline ''https://api.example.com/v1/docs'' = ''https://api.example.com''"
    by (simp add: getBaseUrl_def offline_def)
  show "snd (fetchOpenApiSpec offline ''https://api.example.com/v1/docs'')
     = Inl (Error (notFoundMessage ''https://api.example.com/v1/docs'' ''https://api.example.com''))"
    by (simp add: fetchOpenApiSpec_def fails Let_def discoverOrFail_def discoverSpec_def none base)
  show "filter (\<lambda>path. sublist path
                 (notFoundMessage ''https://api.example.com/v1/docs'' ''https://api.example.com''))
        SPEC_DISCOVERY_PATHS = []"
    by (simp add: notFoundMessage_def SPEC_DISCOVERY_PATHS_def nl_def sublist_code)
qed


text \<open>
  C9, as amended: when the direct attempt at the start URL and the attempt at every
  discovery path fail, the locator fails with an error whose message carries the original
  URL and the computed origin. The attempted probe paths are not part of the error: each
  attempted URL is printed to the console, in the order of the probe list.
\<close>

theorem not_found_error_names_url_and_origin:
  assumes "attempt_fails w url"
    and "\<forall>path\<in>set SPEC_DISCOVERY_PATHS. attempt_fails w (getBaseUrl w url @ path)"
  shows "snd (fetchOpenApiSpec w url) = Inl (Error (notFoundMessage url (getBaseUrl w url)))
       \<and> sublist url (notFoundMessage url (getBaseUrl w url))
       \<and> sublist (getBaseUrl w url) (notFoundMessage url (getBaseUrl w url))
       \<and> filter (prefix ''  Trying: '') (fst (fetchOpenApiSpec w url))
           = map (\<lambda>path. ''  Trying: '' @ getBaseUrl w url @ path) SPEC_DISCOVERY_PATHS"
proof -
  note rest = discoverOrFail_all_fail [OF assms(2)]
  from assms(1) have "snd (fetchOpenApiSpec w url) = snd (discoverOrFail w url)"
    and "filter (prefix ''  Trying: '') (fst (fetchOpenApiSpec w url))
           = filter (prefix ''  Trying: '') (fst (discoverOrFail w url))"
    by (auto simp: fetchOpenApiSpec_def attempt_fails_def Let_def check_mark_def cross_mark_def
          split: sum.splits if_splits)
  with rest show ?thesis by (simp add: notFoundMessage_carries)
qed

text \<open>The theorem in the world where every fetch throws.\<close>

theorem not_found_error_names_url_and_origin_witness:
  "attempt_fails offline ''https://api.example.com/v1/docs''
   \<and> list_all (\<lambda>path. attempt_fails offline (''https://api.example.com'' @ path)) SPEC_DISCOVERY_PATHS
   \<and> getBaseUrl offline ''https://api.example.com/v1/docs'' = ''https://api.example.com''
   \<and> snd (fetchOpenApiSpec offline ''https://api.example.com/v1/docs'')
       = Inl (Error (notFoundMessage ''https://api.example.com/v1/docs'' ''https://api.example.com''))
   \<and> filter (prefix ''  Trying: '') (fst (fetchOpenApiSpec offline ''https://api.example.com/v1/docs''))
       = map (\<lambda>path. ''  Trying: https://api.example.com'' @ path) SPEC_DISCOVERY_PATHS"
proof -
  have fails: "attempt_fails offline u" for u
    by (simp add: attempt_fails_def fetchAndParse_def offline_def)
  have base: "getBaseUrl offline ''https://api.example.com/v1/docs'' = ''https://api.example.com''"
    by (simp add: getBaseUrl_def offline_def)
  from not_found_error_names_url_and_origin [of offline "''https://api.example.com/v1/docs''"]
  show ?thesis
    by (simp add: fails base list_all_iff)
qed

end
